theory Spec2Isabelle
  imports Complex_Main
begin

section \<open>Nova Defense: the simulation core of \<^verbatim>\<open>src/App.tsx\<close>\<close>

text \<open>
  The component \<^verbatim>\<open>App\<close> keeps the simulation in React refs (mutable cells) and mirrors
  part of it in React state for rendering. The embedding is a record \<open>game\<close> holding both,
  and one function per callback of the component: \<open>initGame\<close>, \<open>startNextWave\<close>,
  \<open>fireMissile\<close>, \<open>spawnRocket\<close>, the animation-frame callback \<open>loop\<close> and the callback of
  the wave timer.

  Conventions of the embedding.
  \<^item> A JavaScript \<^verbatim>\<open>number\<close> is a \<open>real\<close>: the arithmetic of the source is read exactly,
    without the rounding of IEEE doubles. The sessions on which a statement of the
    specification is refuted below are chosen so that double arithmetic is exact on them.
  \<^item> \<^verbatim>\<open>Math.random()\<close> reads the next element of a sequence of draws from \<open>[0, 1)\<close> kept in
    the record, so that the order of the calls in the source is the order of the reads.
    An entity's \<^verbatim>\<open>id\<close> is the draw it is printed from (the base-36 printing is not modelled;
    no code reads an id).
  \<^item> \<^verbatim>\<open>setX(v)\<close> of a React state variable stores \<open>v\<close> in the field of that name at once.
    A function created during a render reads the state variables of that render: the click
    handler is rebound on every render and reads the current fields, whereas \<open>loop\<close> is
    created by an effect that depends on \<^verbatim>\<open>gameState\<close> only, so the \<^verbatim>\<open>difficulty\<close> and
    \<^verbatim>\<open>wave\<close> that \<open>spawnRocket\<close> and \<open>startNextWave\<close> read inside it are those of the render in
    which the effect ran. They are the parameters \<open>cDifficulty\<close> and \<open>cWave\<close> of these
    functions.
  \<^item> \<^verbatim>\<open>arr.forEach(f)\<close> reads the length once and then calls \<open>f\<close> on the indices below it in
    order, each time on the element then stored there; elements pushed meanwhile are not
    visited. It is a \<open>fold\<close> over \<open>[0..<length arr]\<close> of a body that reads index \<open>i\<close> and
    writes the mutated object back at \<open>i\<close>.
  \<^item> Drawing on the canvas changes nothing of the simulation and is left out, as are the
    language switch and the star field.
\<close>

subsection \<open>Constants and types\<close>

type_synonym number = real

definition GAME_WIDTH :: number where "GAME_WIDTH = 800"
definition GAME_HEIGHT :: number where "GAME_HEIGHT = 600"
definition WIN_SCORE :: number where "WIN_SCORE = 5000"
definition POINTS_PER_KILL :: number where "POINTS_PER_KILL = 20"
definition AMMO_BONUS :: number where "AMMO_BONUS = 2"
definition CITY_BONUS :: number where "CITY_BONUS = 100"

text \<open>\<^verbatim>\<open>Entity\<close> and its extensions. \<^verbatim>\<open>Rocket\<close> and \<^verbatim>\<open>Missile\<close> are the same structural type.\<close>

record entity =
  id :: number
  x :: number
  y :: number
  active :: bool

record projectile = entity +
  startX :: number
  startY :: number
  targetX :: number
  targetY :: number
  speed :: number
  progress :: number

type_synonym Rocket = projectile
type_synonym Missile = projectile

record Explosion = entity +
  radius :: number
  maxRadius :: number
  growing :: bool

text \<open>
  \<^verbatim>\<open>City\<close> and \<^verbatim>\<open>Turret\<close>. A turret has every field of a city (\<open>spawnRocket\<close> reads both
  through \<^verbatim>\<open>x\<close>, \<^verbatim>\<open>y\<close> and \<^verbatim>\<open>destroyed\<close>), so it is the extension. The \<^verbatim>\<open>label\<close> that a turret
  object inherits from its configuration is not in the type \<^verbatim>\<open>Turret\<close> and is never read.
\<close>

record City =
  id :: number
  x :: number
  y :: number
  destroyed :: bool

record Turret = City +
  ammo :: number
  maxAmmo :: number

datatype GameState = START | PLAYING | WON | LOST
datatype Difficulty = EASY | NORMAL | HARD

text \<open>The values \<^verbatim>\<open>Math.random()\<close> can return.\<close>

typedef draw = "{r :: real. 0 \<le> r \<and> r < 1}"
  by (rule exI [of _ 0]) simp

text \<open>
  The handle of a pending \<^verbatim>\<open>setTimeout\<close>: its delay in milliseconds and the \<^verbatim>\<open>difficulty\<close>
  its callback closes over. The model keeps no clock: the host decides when the callback of
  a pending handle runs.
\<close>

datatype Timeout = Timeout number Difficulty

record game =
  \<comment> \<open>React state\<close>
  gameState :: GameState
  score :: number
  wave :: number
  difficulty :: Difficulty
  isWaveTransition :: bool
  \<comment> \<open>refs\<close>
  scoreRef :: number
  waveRef :: number
  difficultyRef :: Difficulty
  isWaveTransitionRef :: bool
  gameStateRef :: GameState
  rocketsRef :: "Rocket list"
  missilesRef :: "Missile list"
  explosionsRef :: "Explosion list"
  turretsRef :: "Turret list"
  citiesRef :: "City list"
  lastTimeRef :: number
  spawnTimerRef :: number
  rocketsSpawnedInWaveRef :: number
  totalRocketsInWaveRef :: number
  waveTimeoutRef :: "Timeout option"
  \<comment> \<open>the host's random source: the sequence of draws and how many were read\<close>
  randomDraws :: "nat \<Rightarrow> draw"
  randomCalls :: nat

definition Math_random :: "game \<Rightarrow> number \<times> game" where
  "Math_random s = (Rep_draw (randomDraws s (randomCalls s)), s\<lparr>randomCalls := randomCalls s + 1\<rparr>)"

text \<open>\<^verbatim>\<open>TURRET_CONFIGS\<close> as (id, x, ammo, maxAmmo), and \<^verbatim>\<open>CITY_POSITIONS\<close>.\<close>

definition TURRET_CONFIGS :: "(number \<times> number \<times> number \<times> number) list" where
  "TURRET_CONFIGS = [(0, 50, 20, 20), (1, 225, 20, 20), (2, 400, 40, 40), (3, 575, 20, 20), (4, 750, 20, 20)]"

definition CITY_POSITIONS :: "number list" where
  "CITY_POSITIONS = [135, 310, 490, 665]"

subsection \<open>\<^verbatim>\<open>initGame\<close>\<close>

text \<open>\<open>now\<close> is the value of \<^verbatim>\<open>performance.now()\<close>. The state variable \<^verbatim>\<open>difficulty\<close> is current
  here (\<^verbatim>\<open>useCallback\<close> depends on it).\<close>

definition initGame :: "number \<Rightarrow> game \<Rightarrow> game" where
  "initGame now s =
     s\<lparr> waveTimeoutRef := None,
        rocketsRef := [],
        missilesRef := [],
        explosionsRef := [],
        turretsRef := map (\<lambda>(i, cx, a, m).
            \<lparr>City.id = i, x = cx, y = GAME_HEIGHT - 30, destroyed = False, ammo = a, maxAmmo = m\<rparr>)
          TURRET_CONFIGS,
        citiesRef := map (\<lambda>(cx, i).
            \<lparr>City.id = real i, x = cx, y = GAME_HEIGHT - 20, destroyed = False\<rparr>)
          (zip CITY_POSITIONS [0..<length CITY_POSITIONS]),
        scoreRef := 0,
        score := 0,
        waveRef := 1,
        wave := 1,
        isWaveTransitionRef := False,
        gameStateRef := PLAYING,
        gameState := PLAYING,
        isWaveTransition := False,
        lastTimeRef := now,
        spawnTimerRef := 0,
        rocketsSpawnedInWaveRef := 0,
        totalRocketsInWaveRef :=
          (if difficulty s = EASY then 10 else if difficulty s = NORMAL then 15 else 20) \<rparr>"

text \<open>Choosing a difficulty on the start screen; the effect copies it into the ref.\<close>

definition setDifficulty :: "Difficulty \<Rightarrow> game \<Rightarrow> game" where
  "setDifficulty d s = s\<lparr>difficulty := d, difficultyRef := d\<rparr>"

subsection \<open>\<^verbatim>\<open>startNextWave\<close>\<close>

definition refillTurret :: "nat \<Rightarrow> game \<Rightarrow> game" where
  "refillTurret i s =
     (let t = turretsRef s ! i in
      if \<not> destroyed t then
        let bonus = ammo t * AMMO_BONUS;
            s1 = s\<lparr>scoreRef := scoreRef s + bonus\<rparr>;
            s2 = s1\<lparr>score := scoreRef s1\<rparr>
        in s2\<lparr>turretsRef := (turretsRef s2)[i := t\<lparr>ammo := maxAmmo t\<rparr>]\<rparr>
      else s)"

definition cityBonus :: "nat \<Rightarrow> game \<Rightarrow> game" where
  "cityBonus i s =
     (let c = citiesRef s ! i in
      if \<not> destroyed c then
        let s1 = s\<lparr>scoreRef := scoreRef s + CITY_BONUS\<rparr>
        in s1\<lparr>score := scoreRef s1\<rparr>
      else s)"

definition startNextWave :: "Difficulty \<Rightarrow> game \<Rightarrow> game" where
  "startNextWave cDifficulty s0 =
     (let s1 = fold refillTurret [0..<length (turretsRef s0)] s0;
          s2 = fold cityBonus [0..<length (citiesRef s1)] s1;
          s3 = s2\<lparr>waveRef := waveRef s2 + 1\<rparr>;
          s4 = s3\<lparr>wave := waveRef s3\<rparr>;
          s5 = s4\<lparr>rocketsSpawnedInWaveRef := 0\<rparr>;
          waveIncrement = (if cDifficulty = EASY then 5 else if cDifficulty = NORMAL then 8 else 12);
          s6 = s5\<lparr>totalRocketsInWaveRef := totalRocketsInWaveRef s5 + waveIncrement\<rparr>
      in s6\<lparr>isWaveTransitionRef := False, isWaveTransition := False\<rparr>)"

subsection \<open>\<^verbatim>\<open>fireMissile\<close>\<close>

text \<open>\<^verbatim>\<open>minDist\<close> starts at \<^verbatim>\<open>Infinity\<close>; \<^verbatim>\<open>bestTurret\<close> is a reference into the turret array,
  here the index.\<close>

datatype bound = Infinity | Finite number

fun below :: "number \<Rightarrow> bound \<Rightarrow> bool" where
  "below d Infinity = True"
| "below d (Finite m) = (d < m)"

definition considerTurret :: "number \<Rightarrow> Turret list \<Rightarrow> nat \<Rightarrow> nat option \<times> bound \<Rightarrow> nat option \<times> bound" where
  "considerTurret tX turrets i acc =
     (let turret = turrets ! i; bestTurret = fst acc; minDist = snd acc in
      if \<not> destroyed turret \<and> ammo turret > 0 then
        let dist = \<bar>City.x turret - tX\<bar> in
        if below dist minDist then (Some i, Finite dist) else (bestTurret, minDist)
      else (bestTurret, minDist))"

definition closestTurret :: "number \<Rightarrow> Turret list \<Rightarrow> nat option" where
  "closestTurret tX turrets =
     fst (fold (considerTurret tX turrets) [0..<length turrets] (None, Infinity))"

definition fireMissile :: "number \<Rightarrow> number \<Rightarrow> game \<Rightarrow> game" where
  "fireMissile tX tY s =
     (if gameState s \<noteq> PLAYING \<or> isWaveTransition s then s
      else case closestTurret tX (turretsRef s) of
        None \<Rightarrow> s
      | Some b \<Rightarrow>
          let bestTurret = turretsRef s ! b;
              s1 = s\<lparr>turretsRef := (turretsRef s)[b := bestTurret\<lparr>ammo := ammo bestTurret - 1\<rparr>]\<rparr>;
              (r, s2) = Math_random s1
          in s2\<lparr>missilesRef := missilesRef s2 @
               [\<lparr>entity.id = r, x = City.x bestTurret, y = City.y bestTurret, active = True,
                 startX = City.x bestTurret, startY = City.y bestTurret,
                 targetX = tX, targetY = tY, speed = 0.04, progress = 0\<rparr>]\<rparr>)"

subsection \<open>\<^verbatim>\<open>spawnRocket\<close>\<close>

definition spawnRocket :: "Difficulty \<Rightarrow> number \<Rightarrow> game \<Rightarrow> game" where
  "spawnRocket cDifficulty cWave s0 =
     (let (r1, s1) = Math_random s0;
          sX = r1 * GAME_WIDTH;
          targets = filter (\<lambda>t. \<not> destroyed t) (citiesRef s1 @ map City.truncate (turretsRef s1))
      in if length targets = 0 then s1
         else
           let (r2, s2) = Math_random s1;
               target = targets ! nat \<lfloor>r2 * real (length targets)\<rfloor>;
               speedModifier = (if cDifficulty = EASY then 0.7 else if cDifficulty = NORMAL then 1 else 1.3);
               baseSpeed = 0.0015;
               waveScaling = cWave * 0.00015;
               (r3, s3) = Math_random s2
           in s3\<lparr>rocketsRef := rocketsRef s3 @
                [\<lparr>entity.id = r3, x = sX, y = 0, active = True,
                  startX = sX, startY = 0,
                  targetX = City.x target, targetY = City.y target,
                  speed = (baseSpeed + waveScaling) * speedModifier, progress = 0\<rparr>]\<rparr>)"

subsection \<open>The frame callback \<^verbatim>\<open>loop\<close>\<close>

text \<open>The callback is one function in the source; its commented blocks are the definitions
  below, composed in \<open>loop\<close> in the order of the source.\<close>

paragraph \<open>Spawning and wave completion (the block guarded by \<^verbatim>\<open>!isWaveTransitionRef.current\<close>)\<close>

definition spawnInterval :: "game \<Rightarrow> number" where
  "spawnInterval s =
     (let difficultyIntervalModifier =
            (if difficultyRef s = EASY then 1.2 else if difficultyRef s = NORMAL then 1 else 0.8)
      in max 400 ((1500 - waveRef s * 100) * difficultyIntervalModifier))"

definition spawnStep :: "Difficulty \<Rightarrow> number \<Rightarrow> number \<Rightarrow> game \<Rightarrow> game" where
  "spawnStep cDifficulty cWave dt s0 =
     (let s1 = s0\<lparr>spawnTimerRef := spawnTimerRef s0 + dt\<rparr> in
      if spawnTimerRef s1 > spawnInterval s1 \<and> rocketsSpawnedInWaveRef s1 < totalRocketsInWaveRef s1 then
        let s2 = spawnRocket cDifficulty cWave s1;
            s3 = s2\<lparr>rocketsSpawnedInWaveRef := rocketsSpawnedInWaveRef s2 + 1\<rparr>
        in s3\<lparr>spawnTimerRef := 0\<rparr>
      else s1)"

text \<open>The timer callback. A pending handle is replaced by the new one (\<^verbatim>\<open>clearTimeout\<close>
  followed by \<^verbatim>\<open>setTimeout\<close>).\<close>

definition waveTimeoutCallback :: "Difficulty \<Rightarrow> game \<Rightarrow> game" where
  "waveTimeoutCallback cDifficulty s =
     (let s1 = (if gameStateRef s = PLAYING then startNextWave cDifficulty s else s)
      in s1\<lparr>waveTimeoutRef := None\<rparr>)"

definition waveCompletionCheck :: "Difficulty \<Rightarrow> game \<Rightarrow> game" where
  "waveCompletionCheck cDifficulty s =
     (if rocketsSpawnedInWaveRef s \<ge> totalRocketsInWaveRef s \<and> length (rocketsRef s) = 0 then
        s\<lparr>isWaveTransitionRef := True, isWaveTransition := True,
          waveTimeoutRef := Some (Timeout 2000 cDifficulty)\<rparr>
      else s)"

definition waveBlock :: "Difficulty \<Rightarrow> number \<Rightarrow> number \<Rightarrow> game \<Rightarrow> game" where
  "waveBlock cDifficulty cWave dt s =
     (if \<not> isWaveTransitionRef s
      then waveCompletionCheck cDifficulty (spawnStep cDifficulty cWave dt s)
      else s)"

text \<open>The host runs the callback of the pending handle, if there is one.\<close>

definition timeoutFires :: "game \<Rightarrow> game" where
  "timeoutFires s =
     (case waveTimeoutRef s of
        None \<Rightarrow> s
      | Some (Timeout ms cDifficulty) \<Rightarrow> waveTimeoutCallback cDifficulty s)"

paragraph \<open>Update Rockets\<close>

text \<open>The three assignments that both the rocket and the missile loop start with.\<close>

definition advance :: "number \<Rightarrow> projectile \<Rightarrow> projectile" where
  "advance dt p0 =
     (let p1 = p0\<lparr>progress := progress p0 + speed p0 * (dt / 16)\<rparr>;
          p2 = p1\<lparr>entity.x := startX p1 + (targetX p1 - startX p1) * progress p1\<rparr>
      in p2\<lparr>entity.y := startY p2 + (targetY p2 - startY p2) * progress p2\<rparr>)"

text \<open>\<^verbatim>\<open>arr.find(p)\<close> returns the first element satisfying \<open>p\<close>, by reference: \<open>findIndex\<close> gives
  its index, and \<open>hitTarget\<close> is the \<^verbatim>\<open>find\<close> followed by the assignment to \<^verbatim>\<open>destroyed\<close>.\<close>

fun findIndex :: "('a \<Rightarrow> bool) \<Rightarrow> 'a list \<Rightarrow> nat option" where
  "findIndex p [] = None"
| "findIndex p (a # as) = (if p a then Some 0 else map_option Suc (findIndex p as))"

definition hitTarget :: "number \<Rightarrow> number \<Rightarrow> 'a City_scheme list \<Rightarrow> 'a City_scheme list" where
  "hitTarget tX tY cs =
     (case findIndex (\<lambda>c. City.x c = tX \<and> City.y c = tY) cs of
        None \<Rightarrow> cs
      | Some i \<Rightarrow> cs[i := (cs ! i)\<lparr>destroyed := True\<rparr>])"

definition updateRocket :: "number \<Rightarrow> nat \<Rightarrow> game \<Rightarrow> game" where
  "updateRocket dt i s =
     (let rocket = advance dt (rocketsRef s ! i) in
      if progress rocket \<ge> 1 then
        let rocket' = rocket\<lparr>active := False\<rparr>;
            s1 = s\<lparr>rocketsRef := (rocketsRef s)[i := rocket']\<rparr>;
            s2 = s1\<lparr>citiesRef := hitTarget (targetX rocket') (targetY rocket') (citiesRef s1)\<rparr>;
            s3 = s2\<lparr>turretsRef := hitTarget (targetX rocket') (targetY rocket') (turretsRef s2)\<rparr>;
            (r, s4) = Math_random s3
        in s4\<lparr>explosionsRef := explosionsRef s4 @
             [\<lparr>entity.id = r, x = entity.x rocket', y = entity.y rocket', active = True,
               radius = 0, maxRadius = 30, growing = True\<rparr>]\<rparr>
      else s\<lparr>rocketsRef := (rocketsRef s)[i := rocket]\<rparr>)"

definition updateRockets :: "number \<Rightarrow> game \<Rightarrow> game" where
  "updateRockets dt s = fold (updateRocket dt) [0..<length (rocketsRef s)] s"

paragraph \<open>Update Missiles\<close>

definition updateMissile :: "number \<Rightarrow> nat \<Rightarrow> game \<Rightarrow> game" where
  "updateMissile dt i s =
     (let missile = advance dt (missilesRef s ! i) in
      if progress missile \<ge> 1 then
        let missile' = missile\<lparr>active := False\<rparr>;
            s1 = s\<lparr>missilesRef := (missilesRef s)[i := missile']\<rparr>;
            (r, s2) = Math_random s1
        in s2\<lparr>explosionsRef := explosionsRef s2 @
             [\<lparr>entity.id = r, x = targetX missile', y = targetY missile', active = True,
               radius = 0, maxRadius = 50, growing = True\<rparr>]\<rparr>
      else s\<lparr>missilesRef := (missilesRef s)[i := missile]\<rparr>)"

definition updateMissiles :: "number \<Rightarrow> game \<Rightarrow> game" where
  "updateMissiles dt s = fold (updateMissile dt) [0..<length (missilesRef s)] s"

paragraph \<open>Update Explosions\<close>

text \<open>The growth or shrinkage of one explosion.\<close>

definition pulse :: "number \<Rightarrow> Explosion \<Rightarrow> Explosion" where
  "pulse dt exp0 =
     (if growing exp0 then
        let exp1 = exp0\<lparr>radius := radius exp0 + 2 * (dt / 16)\<rparr>
        in if radius exp1 \<ge> maxRadius exp1 then exp1\<lparr>growing := False\<rparr> else exp1
      else
        let exp1 = exp0\<lparr>radius := radius exp0 - 1 * (dt / 16)\<rparr>
        in if radius exp1 \<le> 0 then exp1\<lparr>active := False\<rparr> else exp1)"

text \<open>The test of the collision check: the distance of the centres is below the radius.\<close>

definition inRange :: "Explosion \<Rightarrow> Rocket \<Rightarrow> bool" where
  "inRange exp0 rocket =
     (let dx = entity.x rocket - entity.x exp0;
          dy = entity.y rocket - entity.y exp0;
          dist = sqrt (dx * dx + dy * dy)
      in dist < radius exp0)"

definition collide :: "nat \<Rightarrow> nat \<Rightarrow> game \<Rightarrow> game" where
  "collide i j s =
     (let exp0 = explosionsRef s ! i; rocket = rocketsRef s ! j in
      if active rocket then
        if inRange exp0 rocket then
          let s1 = s\<lparr>rocketsRef := (rocketsRef s)[j := rocket\<lparr>active := False\<rparr>]\<rparr>;
              s2 = s1\<lparr>scoreRef := scoreRef s1 + POINTS_PER_KILL\<rparr>;
              s3 = s2\<lparr>score := scoreRef s2\<rparr>;
              (r, s4) = Math_random s3
          in s4\<lparr>explosionsRef := explosionsRef s4 @
               [\<lparr>entity.id = r, x = entity.x rocket, y = entity.y rocket, active = True,
                 radius = 0, maxRadius = 40, growing = True\<rparr>]\<rparr>
        else s
      else s)"

definition updateExplosion :: "number \<Rightarrow> nat \<Rightarrow> game \<Rightarrow> game" where
  "updateExplosion dt i s =
     (let s1 = s\<lparr>explosionsRef := (explosionsRef s)[i := pulse dt (explosionsRef s ! i)]\<rparr>
      in fold (collide i) [0..<length (rocketsRef s1)] s1)"

definition updateExplosions :: "number \<Rightarrow> game \<Rightarrow> game" where
  "updateExplosions dt s = fold (updateExplosion dt) [0..<length (explosionsRef s)] s"

paragraph \<open>Cleanup, and the check of win and loss\<close>

definition cleanup :: "game \<Rightarrow> game" where
  "cleanup s =
     s\<lparr>rocketsRef := filter active (rocketsRef s),
       missilesRef := filter active (missilesRef s),
       explosionsRef := filter active (explosionsRef s)\<rparr>"

definition checkWinLoss :: "game \<Rightarrow> game" where
  "checkWinLoss s =
     (let s1 = (if scoreRef s \<ge> WIN_SCORE then s\<lparr>gameStateRef := WON, gameState := WON\<rparr> else s)
      in if list_all destroyed (turretsRef s1) then s1\<lparr>gameStateRef := LOST, gameState := LOST\<rparr>
         else s1)"

paragraph \<open>The callback\<close>

text \<open>\<open>update\<close> is the callback after \<^verbatim>\<open>dt\<close> is computed and up to the cleanup.\<close>

definition update :: "Difficulty \<Rightarrow> number \<Rightarrow> number \<Rightarrow> game \<Rightarrow> game" where
  "update cDifficulty cWave dt s0 =
     (let s1 = waveBlock cDifficulty cWave dt s0;
          s2 = updateRockets dt s1;
          s3 = updateMissiles dt s2
      in updateExplosions dt s3)"

definition loop :: "Difficulty \<Rightarrow> number \<Rightarrow> number \<Rightarrow> game \<Rightarrow> game" where
  "loop cDifficulty cWave time s0 =
     (let dt = time - lastTimeRef s0;
          s1 = s0\<lparr>lastTimeRef := time\<rparr>
      in checkWinLoss (cleanup (update cDifficulty cWave dt s1)))"

text \<open>After drawing, the callback requests the next frame exactly when this holds.\<close>

definition requestsNextFrame :: "game \<Rightarrow> bool" where
  "requestsNextFrame s = (gameStateRef s = PLAYING)"

subsection \<open>What the loops compute, as functions on lists\<close>

text \<open>
  The functions of this subsection are not in the source. They say, on lists, what a whole
  \<^verbatim>\<open>forEach\<close> of the source computes; the lemmas of the next section prove that the loops of
  the embedding compute exactly that, and the properties are then read off the lists.
  \<open>landed dt p\<close>: the update by \<open>dt\<close> brings the projectile \<open>p\<close> to progress 1 or beyond;
  \<open>land dt p\<close>: the projectile after its update. \<open>hit e r\<close>: the collision check of
  explosion \<open>e\<close> destroys rocket \<open>r\<close>; \<open>sweep es rs\<close>: the rockets after the checks of the
  explosions \<open>es\<close>, in order; \<open>kills\<close>, \<open>chains\<close>: how many rockets they destroy, and the
  explosions pushed for them.
\<close>

definition landed :: "number \<Rightarrow> projectile \<Rightarrow> bool" where
  "landed dt p = (progress (advance dt p) \<ge> 1)"

definition land :: "number \<Rightarrow> projectile \<Rightarrow> projectile" where
  "land dt p = (if landed dt p then (advance dt p)\<lparr>active := False\<rparr> else advance dt p)"

definition impactExplosion :: "number \<Rightarrow> number \<Rightarrow> Rocket \<Rightarrow> Explosion" where
  "impactExplosion r dt p =
     \<lparr>entity.id = r, x = entity.x (advance dt p), y = entity.y (advance dt p), active = True,
      radius = 0, maxRadius = 30, growing = True\<rparr>"

fun impactExplosions :: "number \<Rightarrow> (nat \<Rightarrow> draw) \<Rightarrow> nat \<Rightarrow> Rocket list \<Rightarrow> Explosion list" where
  "impactExplosions dt draws n [] = []"
| "impactExplosions dt draws n (p # ps) =
     (if landed dt p
      then impactExplosion (Rep_draw (draws n)) dt p # impactExplosions dt draws (Suc n) ps
      else impactExplosions dt draws n ps)"

definition impactOn :: "number \<Rightarrow> Rocket \<Rightarrow> 'a City_scheme list \<Rightarrow> 'a City_scheme list" where
  "impactOn dt p cs = (if landed dt p then hitTarget (targetX p) (targetY p) cs else cs)"

definition hit :: "Explosion \<Rightarrow> Rocket \<Rightarrow> bool" where
  "hit e r = (active r \<and> inRange e r)"

definition kill :: "Explosion \<Rightarrow> Rocket \<Rightarrow> Rocket" where
  "kill e r = (if hit e r then r\<lparr>active := False\<rparr> else r)"

definition chainExplosion :: "number \<Rightarrow> Rocket \<Rightarrow> Explosion" where
  "chainExplosion d r =
     \<lparr>entity.id = d, x = entity.x r, y = entity.y r, active = True,
      radius = 0, maxRadius = 40, growing = True\<rparr>"

fun chainExplosions :: "(nat \<Rightarrow> draw) \<Rightarrow> nat \<Rightarrow> Explosion \<Rightarrow> Rocket list \<Rightarrow> Explosion list" where
  "chainExplosions draws n e [] = []"
| "chainExplosions draws n e (r # rs) =
     (if hit e r then chainExplosion (Rep_draw (draws n)) r # chainExplosions draws (Suc n) e rs
      else chainExplosions draws n e rs)"

definition sweep :: "Explosion list \<Rightarrow> Rocket list \<Rightarrow> Rocket list" where
  "sweep es rs = fold (\<lambda>e. map (kill e)) es rs"

fun kills :: "Explosion list \<Rightarrow> Rocket list \<Rightarrow> nat" where
  "kills [] rs = 0"
| "kills (e # es) rs = length (filter (hit e) rs) + kills es (map (kill e) rs)"

fun chains :: "(nat \<Rightarrow> draw) \<Rightarrow> nat \<Rightarrow> Explosion list \<Rightarrow> Rocket list \<Rightarrow> Explosion list" where
  "chains draws n [] rs = []"
| "chains draws n (e # es) rs =
     chainExplosions draws n e rs @ chains draws (n + length (filter (hit e) rs)) es (map (kill e) rs)"

definition interceptExplosion :: "number \<Rightarrow> Missile \<Rightarrow> Explosion" where
  "interceptExplosion d m =
     \<lparr>entity.id = d, x = targetX m, y = targetY m, active = True,
      radius = 0, maxRadius = 50, growing = True\<rparr>"

fun interceptExplosions :: "number \<Rightarrow> (nat \<Rightarrow> draw) \<Rightarrow> nat \<Rightarrow> Missile list \<Rightarrow> Explosion list" where
  "interceptExplosions dt draws n [] = []"
| "interceptExplosions dt draws n (m # ms) =
     (if landed dt m
      then interceptExplosion (Rep_draw (draws n)) m # interceptExplosions dt draws (Suc n) ms
      else interceptExplosions dt draws n ms)"

definition eligible :: "Turret \<Rightarrow> bool" where
  "eligible t = (\<not> destroyed t \<and> ammo t > 0)"

definition refilled :: "Turret \<Rightarrow> Turret" where
  "refilled t = (if \<not> destroyed t then t\<lparr>ammo := maxAmmo t\<rparr> else t)"

definition ammoBonus :: "Turret \<Rightarrow> number" where
  "ammoBonus t = (if \<not> destroyed t then ammo t * AMMO_BONUS else 0)"

definition standing :: "'a City_scheme \<Rightarrow> bool" where
  "standing c = (\<not> destroyed c)"

text \<open>After the checks of the explosions \<open>es\<close>, a rocket is inactive if it was, or if it was
  active and in the range of one of them; nothing else of it changes.\<close>

definition destroyedBy :: "Explosion list \<Rightarrow> Rocket \<Rightarrow> bool" where
  "destroyedBy es r = (active r \<and> (\<exists>e\<in>set es. inRange e r))"

text \<open>The horizontal distance that \<open>fireMissile\<close> compares.\<close>

definition aim :: "number \<Rightarrow> Turret \<Rightarrow> number" where
  "aim tX t = \<bar>City.x t - tX\<bar>"

subsection \<open>Concrete sessions\<close>

text \<open>The component before the first start: the initial values of its state variables and
  refs. \<open>halves\<close> is the random source whose every draw is 1/2.\<close>

definition initialApp :: "(nat \<Rightarrow> draw) \<Rightarrow> game" where
  "initialApp draws =
     \<lparr>gameState = START, score = 0, wave = 1, difficulty = NORMAL, isWaveTransition = False,
      scoreRef = 0, waveRef = 1, difficultyRef = NORMAL, isWaveTransitionRef = False,
      gameStateRef = START, rocketsRef = [], missilesRef = [], explosionsRef = [],
      turretsRef = [], citiesRef = [], lastTimeRef = 0, spawnTimerRef = 0,
      rocketsSpawnedInWaveRef = 0, totalRocketsInWaveRef = 10, waveTimeoutRef = None,
      randomDraws = draws, randomCalls = 0\<rparr>"

definition halves :: "nat \<Rightarrow> draw" where
  "halves n = Abs_draw (1/2)"

text \<open>A session started at time 0.\<close>

definition started :: game where
  "started = initGame 0 (initialApp halves)"

text \<open>
  A NORMAL session at 4980 points whose only standing turret is the central one. One rocket
  is 1/512 short of that turret and moves 1/512 per 16 ms; a second one, on its way to the
  first city, is 5 away from the centre of a growing explosion of radius 10.
\<close>

definition tieState :: game where
  "tieState =
     started
     \<lparr>scoreRef := 4980, score := 4980,
      turretsRef :=
        [\<lparr>City.id = 0, x = 50, y = 570, destroyed = True, ammo = 20, maxAmmo = 20\<rparr>,
         \<lparr>City.id = 1, x = 225, y = 570, destroyed = True, ammo = 20, maxAmmo = 20\<rparr>,
         \<lparr>City.id = 2, x = 400, y = 570, destroyed = False, ammo = 40, maxAmmo = 40\<rparr>,
         \<lparr>City.id = 3, x = 575, y = 570, destroyed = True, ammo = 20, maxAmmo = 20\<rparr>,
         \<lparr>City.id = 4, x = 750, y = 570, destroyed = True, ammo = 20, maxAmmo = 20\<rparr>],
      rocketsRef :=
        [\<lparr>entity.id = 1/4, x = 400, y = 570 * (511/512), active = True, startX = 400, startY = 0,
          targetX = 400, targetY = 570, speed = 1/512, progress = 511/512\<rparr>,
         \<lparr>entity.id = 1/8, x = 135, y = 145, active = True, startX = 135, startY = 0,
          targetX = 135, targetY = 580, speed = 1/512, progress = 1/4\<rparr>],
      explosionsRef :=
        [\<lparr>entity.id = 3/4, x = 135, y = 150, active = True, radius = 10, maxRadius = 50,
          growing = True\<rparr>]\<rparr>"

text \<open>
  The NORMAL session after its 15 rockets of wave 1 were spawned and are gone, at 300 points.
  The first turret has 5 of its 20 missiles left.
\<close>

definition waveDone :: game where
  "waveDone =
     started
     \<lparr>scoreRef := 300, score := 300, rocketsSpawnedInWaveRef := 15, lastTimeRef := 20000,
      turretsRef :=
        [\<lparr>City.id = 0, x = 50, y = 570, destroyed = False, ammo = 5, maxAmmo = 20\<rparr>,
         \<lparr>City.id = 1, x = 225, y = 570, destroyed = True, ammo = 20, maxAmmo = 20\<rparr>,
         \<lparr>City.id = 2, x = 400, y = 570, destroyed = False, ammo = 40, maxAmmo = 40\<rparr>,
         \<lparr>City.id = 3, x = 575, y = 570, destroyed = False, ammo = 20, maxAmmo = 20\<rparr>,
         \<lparr>City.id = 4, x = 750, y = 570, destroyed = False, ammo = 20, maxAmmo = 20\<rparr>]\<rparr>"

text \<open>The same session during the delay: once still PLAYING, once with the state LOST.\<close>

definition waiting :: game where
  "waiting =
     waveDone\<lparr>isWaveTransitionRef := True, isWaveTransition := True,
       waveTimeoutRef := Some (Timeout 2000 NORMAL)\<rparr>"

definition lostWaiting :: game where
  "lostWaiting = waiting\<lparr>gameStateRef := LOST, gameState := LOST\<rparr>"

text \<open>A started session 1390 ms after its last spawn.\<close>

definition spawnDue :: game where
  "spawnDue = started\<lparr>spawnTimerRef := 1390, lastTimeRef := 1390\<rparr>"

text \<open>A started session with two explosions: one growing, 1 below its maximal radius, and one
  shrinking, at radius 1/2.\<close>

definition fading :: game where
  "fading =
     started
     \<lparr>explosionsRef :=
        [\<lparr>entity.id = 1/4, x = 300, y = 200, active = True, radius = 49, maxRadius = 50,
          growing = True\<rparr>,
         \<lparr>entity.id = 3/4, x = 500, y = 250, active = True, radius = 1/2, maxRadius = 40,
          growing = False\<rparr>]\<rparr>"


section \<open>The loops of the embedding, characterised\<close>

subsection \<open>Folding over the indices of an array\<close>

lemma fold_preserves:
  assumes "P s" and "\<And>i t. P t \<Longrightarrow> P (f i t)"
  shows "P (fold f js s)"
  using assms(1) by (induction js arbitrary: s) (auto intro: assms(2))

lemma fold_upt_Suc: "fold f [0..<Suc k] s = f k (fold f [0..<k] s)"
  by simp

lemma nth_visited:
  "k < length xs \<Longrightarrow> (map f (take k xs) @ drop k xs @ zs) ! k = xs ! k"
  by (simp add: nth_append)

lemma update_visited:
  "k < length xs \<Longrightarrow>
   (map f (take k xs) @ drop k xs @ zs)[k := f (xs ! k)] = map f (take (Suc k) xs) @ drop (Suc k) xs @ zs"
  by (simp add: list_update_append take_Suc_conv_app_nth flip: Cons_nth_drop_Suc)

lemma nth_visited0:
  "k < length xs \<Longrightarrow> (map f (take k xs) @ drop k xs) ! k = xs ! k"
  using nth_visited [of k xs f "[]"] by simp

lemma update_visited0:
  "k < length xs \<Longrightarrow>
   (map f (take k xs) @ drop k xs)[k := f (xs ! k)] = map f (take (Suc k) xs) @ drop (Suc k) xs"
  using update_visited [of k xs f "[]"] by simp

subsection \<open>The rocket loop\<close>

lemma impactExplosions_append:
  "impactExplosions dt draws n (ps @ qs) =
     impactExplosions dt draws n ps @ impactExplosions dt draws (n + length (filter (landed dt) ps)) qs"
  by (induction ps arbitrary: n) simp_all

lemma advance_fields [simp]:
  "progress (advance dt p) = progress p + speed p * (dt / 16)"
  "entity.x (advance dt p) = startX p + (targetX p - startX p) * (progress p + speed p * (dt / 16))"
  "entity.y (advance dt p) = startY p + (targetY p - startY p) * (progress p + speed p * (dt / 16))"
  "startX (advance dt p) = startX p" "startY (advance dt p) = startY p"
  "targetX (advance dt p) = targetX p" "targetY (advance dt p) = targetY p"
  "speed (advance dt p) = speed p" "active (advance dt p) = active p"
  "entity.id (advance dt p) = entity.id p"
  by (simp_all add: advance_def Let_def)

lemma updateRocket_fields:
  "rocketsRef (updateRocket dt i s) = (rocketsRef s)[i := land dt (rocketsRef s ! i)]"
  "citiesRef (updateRocket dt i s) = impactOn dt (rocketsRef s ! i) (citiesRef s)"
  "turretsRef (updateRocket dt i s) = impactOn dt (rocketsRef s ! i) (turretsRef s)"
  "explosionsRef (updateRocket dt i s) =
     explosionsRef s @ (if landed dt (rocketsRef s ! i)
        then [impactExplosion (Rep_draw (randomDraws s (randomCalls s))) dt (rocketsRef s ! i)] else [])"
  "randomCalls (updateRocket dt i s) = randomCalls s + (if landed dt (rocketsRef s ! i) then 1 else 0)"
  "randomDraws (updateRocket dt i s) = randomDraws s"
  by (simp_all add: updateRocket_def Let_def land_def landed_def impactOn_def impactExplosion_def
        Math_random_def)

lemma updateRocket_passive:
  "scoreRef (updateRocket dt i s) = scoreRef s"
  "score (updateRocket dt i s) = score s"
  "missilesRef (updateRocket dt i s) = missilesRef s"
  "gameStateRef (updateRocket dt i s) = gameStateRef s"
  "gameState (updateRocket dt i s) = gameState s"
  "isWaveTransitionRef (updateRocket dt i s) = isWaveTransitionRef s"
  "isWaveTransition (updateRocket dt i s) = isWaveTransition s"
  "waveTimeoutRef (updateRocket dt i s) = waveTimeoutRef s"
  "waveRef (updateRocket dt i s) = waveRef s"
  "wave (updateRocket dt i s) = wave s"
  "difficultyRef (updateRocket dt i s) = difficultyRef s"
  "difficulty (updateRocket dt i s) = difficulty s"
  "spawnTimerRef (updateRocket dt i s) = spawnTimerRef s"
  "rocketsSpawnedInWaveRef (updateRocket dt i s) = rocketsSpawnedInWaveRef s"
  "totalRocketsInWaveRef (updateRocket dt i s) = totalRocketsInWaveRef s"
  "lastTimeRef (updateRocket dt i s) = lastTimeRef s"
  by (simp_all add: updateRocket_def Let_def Math_random_def)

lemma updateRockets_prefix:
  "k \<le> length (rocketsRef s) \<Longrightarrow>
     rocketsRef (fold (updateRocket dt) [0..<k] s) =
       map (land dt) (take k (rocketsRef s)) @ drop k (rocketsRef s)
   \<and> citiesRef (fold (updateRocket dt) [0..<k] s) =
       fold (impactOn dt) (take k (rocketsRef s)) (citiesRef s)
   \<and> turretsRef (fold (updateRocket dt) [0..<k] s) =
       fold (impactOn dt) (take k (rocketsRef s)) (turretsRef s)
   \<and> explosionsRef (fold (updateRocket dt) [0..<k] s) =
       explosionsRef s @ impactExplosions dt (randomDraws s) (randomCalls s) (take k (rocketsRef s))
   \<and> randomCalls (fold (updateRocket dt) [0..<k] s) =
       randomCalls s + length (filter (landed dt) (take k (rocketsRef s)))
   \<and> randomDraws (fold (updateRocket dt) [0..<k] s) = randomDraws s"
proof (induction k)
  case 0
  show ?case by simp
next
  case (Suc k)
  then have k: "k < length (rocketsRef s)" and IH: "k \<le> length (rocketsRef s)" by simp_all
  note ih = Suc.IH [OF IH]
  have nth: "rocketsRef (fold (updateRocket dt) [0..<k] s) ! k = rocketsRef s ! k"
    using ih k by (simp add: nth_visited0)
  show ?case
    unfolding fold_upt_Suc
    using ih k
    by (simp add: updateRocket_fields nth_visited0 update_visited0 take_Suc_conv_app_nth
          impactExplosions_append del: upt_Suc)
qed

lemma updateRockets_fields:
  "rocketsRef (updateRockets dt s) = map (land dt) (rocketsRef s)"
  "citiesRef (updateRockets dt s) = fold (impactOn dt) (rocketsRef s) (citiesRef s)"
  "turretsRef (updateRockets dt s) = fold (impactOn dt) (rocketsRef s) (turretsRef s)"
  "explosionsRef (updateRockets dt s) =
     explosionsRef s @ impactExplosions dt (randomDraws s) (randomCalls s) (rocketsRef s)"
  "randomCalls (updateRockets dt s) = randomCalls s + length (filter (landed dt) (rocketsRef s))"
  "randomDraws (updateRockets dt s) = randomDraws s"
  using updateRockets_prefix [of "length (rocketsRef s)" s dt]
  by (simp_all add: updateRockets_def)

lemma updateRockets_passive:
  "scoreRef (updateRockets dt s) = scoreRef s"
  "score (updateRockets dt s) = score s"
  "missilesRef (updateRockets dt s) = missilesRef s"
  "gameStateRef (updateRockets dt s) = gameStateRef s"
  "gameState (updateRockets dt s) = gameState s"
  "isWaveTransitionRef (updateRockets dt s) = isWaveTransitionRef s"
  "isWaveTransition (updateRockets dt s) = isWaveTransition s"
  "waveTimeoutRef (updateRockets dt s) = waveTimeoutRef s"
  "waveRef (updateRockets dt s) = waveRef s"
  "wave (updateRockets dt s) = wave s"
  "difficultyRef (updateRockets dt s) = difficultyRef s"
  "difficulty (updateRockets dt s) = difficulty s"
  "spawnTimerRef (updateRockets dt s) = spawnTimerRef s"
  "rocketsSpawnedInWaveRef (updateRockets dt s) = rocketsSpawnedInWaveRef s"
  "totalRocketsInWaveRef (updateRockets dt s) = totalRocketsInWaveRef s"
  "lastTimeRef (updateRockets dt s) = lastTimeRef s"
  unfolding updateRockets_def
  by (rule fold_preserves, simp, simp add: updateRocket_passive)+

subsection \<open>The explosion loop\<close>

lemma chainExplosions_append:
  "chainExplosions draws n e (rs @ qs) =
     chainExplosions draws n e rs @ chainExplosions draws (n + length (filter (hit e) rs)) e qs"
  by (induction rs arbitrary: n) simp_all

lemma kills_snoc:
  "kills (es @ [e]) rs = kills es rs + length (filter (hit e) (sweep es rs))"
  by (induction es arbitrary: rs) (simp_all add: sweep_def)

lemma chains_snoc:
  "chains draws n (es @ [e]) rs =
     chains draws n es rs @ chainExplosions draws (n + kills es rs) e (sweep es rs)"
  by (induction es arbitrary: rs n) (simp_all add: sweep_def add.assoc)

lemma sweep_snoc: "sweep (es @ [e]) rs = map (kill e) (sweep es rs)"
  by (simp add: sweep_def)

lemma length_sweep [simp]: "length (sweep es rs) = length rs"
  by (induction es arbitrary: rs) (simp_all add: sweep_def)

lemma collide_fields:
  "rocketsRef (collide i j s) = (rocketsRef s)[j := kill (explosionsRef s ! i) (rocketsRef s ! j)]"
  "explosionsRef (collide i j s) =
     explosionsRef s @ (if hit (explosionsRef s ! i) (rocketsRef s ! j)
        then [chainExplosion (Rep_draw (randomDraws s (randomCalls s))) (rocketsRef s ! j)] else [])"
  "scoreRef (collide i j s) =
     scoreRef s + (if hit (explosionsRef s ! i) (rocketsRef s ! j) then POINTS_PER_KILL else 0)"
  "randomCalls (collide i j s) =
     randomCalls s + (if hit (explosionsRef s ! i) (rocketsRef s ! j) then 1 else 0)"
  "randomDraws (collide i j s) = randomDraws s"
  by (simp_all add: collide_def Let_def hit_def kill_def chainExplosion_def Math_random_def)

lemma collide_passive:
  "missilesRef (collide i j s) = missilesRef s"
  "turretsRef (collide i j s) = turretsRef s"
  "citiesRef (collide i j s) = citiesRef s"
  "gameStateRef (collide i j s) = gameStateRef s"
  "gameState (collide i j s) = gameState s"
  "isWaveTransitionRef (collide i j s) = isWaveTransitionRef s"
  "isWaveTransition (collide i j s) = isWaveTransition s"
  "waveTimeoutRef (collide i j s) = waveTimeoutRef s"
  "waveRef (collide i j s) = waveRef s"
  "wave (collide i j s) = wave s"
  "difficultyRef (collide i j s) = difficultyRef s"
  "difficulty (collide i j s) = difficulty s"
  "spawnTimerRef (collide i j s) = spawnTimerRef s"
  "rocketsSpawnedInWaveRef (collide i j s) = rocketsSpawnedInWaveRef s"
  "totalRocketsInWaveRef (collide i j s) = totalRocketsInWaveRef s"
  "lastTimeRef (collide i j s) = lastTimeRef s"
  by (simp_all add: collide_def Let_def Math_random_def)

lemma collide_prefix:
  "i < length (explosionsRef s) \<Longrightarrow> k \<le> length (rocketsRef s) \<Longrightarrow>
     rocketsRef (fold (collide i) [0..<k] s) =
       map (kill (explosionsRef s ! i)) (take k (rocketsRef s)) @ drop k (rocketsRef s)
   \<and> explosionsRef (fold (collide i) [0..<k] s) =
       explosionsRef s @
       chainExplosions (randomDraws s) (randomCalls s) (explosionsRef s ! i) (take k (rocketsRef s))
   \<and> scoreRef (fold (collide i) [0..<k] s) =
       scoreRef s + POINTS_PER_KILL * real (length (filter (hit (explosionsRef s ! i)) (take k (rocketsRef s))))
   \<and> randomCalls (fold (collide i) [0..<k] s) =
       randomCalls s + length (filter (hit (explosionsRef s ! i)) (take k (rocketsRef s)))
   \<and> randomDraws (fold (collide i) [0..<k] s) = randomDraws s"
proof (induction k)
  case 0
  show ?case by simp
next
  case (Suc k)
  then have k: "k < length (rocketsRef s)" and IH: "k \<le> length (rocketsRef s)" by simp_all
  note ih = Suc.IH [OF Suc.prems(1) IH]
  show ?case
    unfolding fold_upt_Suc
    using ih k Suc.prems(1)
    by (simp add: collide_fields nth_visited0 update_visited0 take_Suc_conv_app_nth
          chainExplosions_append nth_append algebra_simps del: upt_Suc)
qed

lemma updateExplosion_fields:
  assumes "i < length (explosionsRef s)"
  shows
  "rocketsRef (updateExplosion dt i s) = map (kill (pulse dt (explosionsRef s ! i))) (rocketsRef s)"
  "explosionsRef (updateExplosion dt i s) =
     (explosionsRef s)[i := pulse dt (explosionsRef s ! i)] @
     chainExplosions (randomDraws s) (randomCalls s) (pulse dt (explosionsRef s ! i)) (rocketsRef s)"
  "scoreRef (updateExplosion dt i s) =
     scoreRef s + POINTS_PER_KILL * real (length (filter (hit (pulse dt (explosionsRef s ! i))) (rocketsRef s)))"
  "randomCalls (updateExplosion dt i s) =
     randomCalls s + length (filter (hit (pulse dt (explosionsRef s ! i))) (rocketsRef s))"
  "randomDraws (updateExplosion dt i s) = randomDraws s"
  using assms
    collide_prefix [of i "s\<lparr>explosionsRef := (explosionsRef s)[i := pulse dt (explosionsRef s ! i)]\<rparr>"
      "length (rocketsRef s)"]
  by (simp_all add: updateExplosion_def Let_def)

lemma updateExplosion_passive:
  "missilesRef (updateExplosion dt i s) = missilesRef s"
  "turretsRef (updateExplosion dt i s) = turretsRef s"
  "citiesRef (updateExplosion dt i s) = citiesRef s"
  "gameStateRef (updateExplosion dt i s) = gameStateRef s"
  "gameState (updateExplosion dt i s) = gameState s"
  "isWaveTransitionRef (updateExplosion dt i s) = isWaveTransitionRef s"
  "isWaveTransition (updateExplosion dt i s) = isWaveTransition s"
  "waveTimeoutRef (updateExplosion dt i s) = waveTimeoutRef s"
  "waveRef (updateExplosion dt i s) = waveRef s"
  "wave (updateExplosion dt i s) = wave s"
  "difficultyRef (updateExplosion dt i s) = difficultyRef s"
  "difficulty (updateExplosion dt i s) = difficulty s"
  "spawnTimerRef (updateExplosion dt i s) = spawnTimerRef s"
  "rocketsSpawnedInWaveRef (updateExplosion dt i s) = rocketsSpawnedInWaveRef s"
  "totalRocketsInWaveRef (updateExplosion dt i s) = totalRocketsInWaveRef s"
  "lastTimeRef (updateExplosion dt i s) = lastTimeRef s"
  unfolding updateExplosion_def Let_def
  by (rule fold_preserves, simp, simp add: collide_passive)+

lemma updateExplosions_prefix:
  "k \<le> length (explosionsRef s) \<Longrightarrow>
     explosionsRef (fold (updateExplosion dt) [0..<k] s) =
       map (pulse dt) (take k (explosionsRef s)) @ drop k (explosionsRef s) @
       chains (randomDraws s) (randomCalls s) (map (pulse dt) (take k (explosionsRef s))) (rocketsRef s)
   \<and> rocketsRef (fold (updateExplosion dt) [0..<k] s) =
       sweep (map (pulse dt) (take k (explosionsRef s))) (rocketsRef s)
   \<and> scoreRef (fold (updateExplosion dt) [0..<k] s) =
       scoreRef s + POINTS_PER_KILL * real (kills (map (pulse dt) (take k (explosionsRef s))) (rocketsRef s))
   \<and> randomCalls (fold (updateExplosion dt) [0..<k] s) =
       randomCalls s + kills (map (pulse dt) (take k (explosionsRef s))) (rocketsRef s)
   \<and> randomDraws (fold (updateExplosion dt) [0..<k] s) = randomDraws s"
proof (induction k)
  case 0
  show ?case by (simp add: sweep_def)
next
  case (Suc k)
  then have k: "k < length (explosionsRef s)" and IH: "k \<le> length (explosionsRef s)" by simp_all
  note ih = Suc.IH [OF IH]
  let ?t = "fold (updateExplosion dt) [0..<k] s"
  have len: "k < length (explosionsRef ?t)"
    using ih k by simp
  have nth: "explosionsRef ?t ! k = explosionsRef s ! k"
    using k by (simp add: ih nth_visited)
  have upd: "(explosionsRef ?t)[k := pulse dt (explosionsRef s ! k)] =
      map (pulse dt) (take (Suc k) (explosionsRef s)) @ drop (Suc k) (explosionsRef s) @
       chains (randomDraws s) (randomCalls s) (map (pulse dt) (take k (explosionsRef s))) (rocketsRef s)"
    using k by (simp only: ih update_visited)
  show ?case
    unfolding fold_upt_Suc
    using k
    by (simp add: updateExplosion_fields [OF len] nth_visited update_visited ih take_Suc_conv_app_nth
          chains_snoc kills_snoc sweep_snoc algebra_simps del: upt_Suc)
qed

lemma updateExplosions_fields:
  "explosionsRef (updateExplosions dt s) =
     map (pulse dt) (explosionsRef s) @
     chains (randomDraws s) (randomCalls s) (map (pulse dt) (explosionsRef s)) (rocketsRef s)"
  "rocketsRef (updateExplosions dt s) = sweep (map (pulse dt) (explosionsRef s)) (rocketsRef s)"
  "scoreRef (updateExplosions dt s) =
     scoreRef s + POINTS_PER_KILL * real (kills (map (pulse dt) (explosionsRef s)) (rocketsRef s))"
  "randomCalls (updateExplosions dt s) =
     randomCalls s + kills (map (pulse dt) (explosionsRef s)) (rocketsRef s)"
  "randomDraws (updateExplosions dt s) = randomDraws s"
  using updateExplosions_prefix [of "length (explosionsRef s)" s dt]
  by (simp_all add: updateExplosions_def)

lemma updateExplosions_passive:
  "missilesRef (updateExplosions dt s) = missilesRef s"
  "turretsRef (updateExplosions dt s) = turretsRef s"
  "citiesRef (updateExplosions dt s) = citiesRef s"
  "gameStateRef (updateExplosions dt s) = gameStateRef s"
  "gameState (updateExplosions dt s) = gameState s"
  "isWaveTransitionRef (updateExplosions dt s) = isWaveTransitionRef s"
  "isWaveTransition (updateExplosions dt s) = isWaveTransition s"
  "waveTimeoutRef (updateExplosions dt s) = waveTimeoutRef s"
  "waveRef (updateExplosions dt s) = waveRef s"
  "wave (updateExplosions dt s) = wave s"
  "difficultyRef (updateExplosions dt s) = difficultyRef s"
  "difficulty (updateExplosions dt s) = difficulty s"
  "spawnTimerRef (updateExplosions dt s) = spawnTimerRef s"
  "rocketsSpawnedInWaveRef (updateExplosions dt s) = rocketsSpawnedInWaveRef s"
  "totalRocketsInWaveRef (updateExplosions dt s) = totalRocketsInWaveRef s"
  "lastTimeRef (updateExplosions dt s) = lastTimeRef s"
  unfolding updateExplosions_def
  by (rule fold_preserves, simp, simp add: updateExplosion_passive)+

subsection \<open>The missile loop\<close>

lemma interceptExplosions_append:
  "interceptExplosions dt draws n (ps @ qs) =
     interceptExplosions dt draws n ps @ interceptExplosions dt draws (n + length (filter (landed dt) ps)) qs"
  by (induction ps arbitrary: n) simp_all

lemma updateMissile_fields:
  "missilesRef (updateMissile dt i s) = (missilesRef s)[i := land dt (missilesRef s ! i)]"
  "explosionsRef (updateMissile dt i s) =
     explosionsRef s @ (if landed dt (missilesRef s ! i)
        then [interceptExplosion (Rep_draw (randomDraws s (randomCalls s))) (missilesRef s ! i)] else [])"
  "randomCalls (updateMissile dt i s) = randomCalls s + (if landed dt (missilesRef s ! i) then 1 else 0)"
  "randomDraws (updateMissile dt i s) = randomDraws s"
  by (simp_all add: updateMissile_def Let_def land_def landed_def interceptExplosion_def Math_random_def)

lemma updateMissile_passive:
  "scoreRef (updateMissile dt i s) = scoreRef s"
  "score (updateMissile dt i s) = score s"
  "rocketsRef (updateMissile dt i s) = rocketsRef s"
  "turretsRef (updateMissile dt i s) = turretsRef s"
  "citiesRef (updateMissile dt i s) = citiesRef s"
  "gameStateRef (updateMissile dt i s) = gameStateRef s"
  "gameState (updateMissile dt i s) = gameState s"
  "isWaveTransitionRef (updateMissile dt i s) = isWaveTransitionRef s"
  "isWaveTransition (updateMissile dt i s) = isWaveTransition s"
  "waveTimeoutRef (updateMissile dt i s) = waveTimeoutRef s"
  "waveRef (updateMissile dt i s) = waveRef s"
  "wave (updateMissile dt i s) = wave s"
  "difficultyRef (updateMissile dt i s) = difficultyRef s"
  "difficulty (updateMissile dt i s) = difficulty s"
  "spawnTimerRef (updateMissile dt i s) = spawnTimerRef s"
  "rocketsSpawnedInWaveRef (updateMissile dt i s) = rocketsSpawnedInWaveRef s"
  "totalRocketsInWaveRef (updateMissile dt i s) = totalRocketsInWaveRef s"
  "lastTimeRef (updateMissile dt i s) = lastTimeRef s"
  by (simp_all add: updateMissile_def Let_def Math_random_def)

lemma updateMissiles_prefix:
  "k \<le> length (missilesRef s) \<Longrightarrow>
     missilesRef (fold (updateMissile dt) [0..<k] s) =
       map (land dt) (take k (missilesRef s)) @ drop k (missilesRef s)
   \<and> explosionsRef (fold (updateMissile dt) [0..<k] s) =
       explosionsRef s @ interceptExplosions dt (randomDraws s) (randomCalls s) (take k (missilesRef s))
   \<and> randomCalls (fold (updateMissile dt) [0..<k] s) =
       randomCalls s + length (filter (landed dt) (take k (missilesRef s)))
   \<and> randomDraws (fold (updateMissile dt) [0..<k] s) = randomDraws s"
proof (induction k)
  case 0
  show ?case by simp
next
  case (Suc k)
  then have k: "k < length (missilesRef s)" and IH: "k \<le> length (missilesRef s)" by simp_all
  note ih = Suc.IH [OF IH]
  show ?case
    unfolding fold_upt_Suc
    using ih k
    by (simp add: updateMissile_fields nth_visited0 update_visited0 take_Suc_conv_app_nth
          interceptExplosions_append del: upt_Suc)
qed

lemma updateMissiles_fields:
  "missilesRef (updateMissiles dt s) = map (land dt) (missilesRef s)"
  "explosionsRef (updateMissiles dt s) =
     explosionsRef s @ interceptExplosions dt (randomDraws s) (randomCalls s) (missilesRef s)"
  "randomCalls (updateMissiles dt s) = randomCalls s + length (filter (landed dt) (missilesRef s))"
  "randomDraws (updateMissiles dt s) = randomDraws s"
  using updateMissiles_prefix [of "length (missilesRef s)" s dt]
  by (simp_all add: updateMissiles_def)

lemma updateMissiles_passive:
  "scoreRef (updateMissiles dt s) = scoreRef s"
  "score (updateMissiles dt s) = score s"
  "rocketsRef (updateMissiles dt s) = rocketsRef s"
  "turretsRef (updateMissiles dt s) = turretsRef s"
  "citiesRef (updateMissiles dt s) = citiesRef s"
  "gameStateRef (updateMissiles dt s) = gameStateRef s"
  "gameState (updateMissiles dt s) = gameState s"
  "isWaveTransitionRef (updateMissiles dt s) = isWaveTransitionRef s"
  "isWaveTransition (updateMissiles dt s) = isWaveTransition s"
  "waveTimeoutRef (updateMissiles dt s) = waveTimeoutRef s"
  "waveRef (updateMissiles dt s) = waveRef s"
  "wave (updateMissiles dt s) = wave s"
  "difficultyRef (updateMissiles dt s) = difficultyRef s"
  "difficulty (updateMissiles dt s) = difficulty s"
  "spawnTimerRef (updateMissiles dt s) = spawnTimerRef s"
  "rocketsSpawnedInWaveRef (updateMissiles dt s) = rocketsSpawnedInWaveRef s"
  "totalRocketsInWaveRef (updateMissiles dt s) = totalRocketsInWaveRef s"
  "lastTimeRef (updateMissiles dt s) = lastTimeRef s"
  unfolding updateMissiles_def
  by (rule fold_preserves, simp, simp add: updateMissile_passive)+

subsection \<open>The loops of \<open>startNextWave\<close>\<close>

lemma refillTurret_fields:
  "turretsRef (refillTurret i s) = (turretsRef s)[i := refilled (turretsRef s ! i)]"
  "scoreRef (refillTurret i s) = scoreRef s + ammoBonus (turretsRef s ! i)"
  by (simp_all add: refillTurret_def Let_def refilled_def ammoBonus_def)

lemma refillTurret_passive:
  "rocketsRef (refillTurret i s) = rocketsRef s"
  "missilesRef (refillTurret i s) = missilesRef s"
  "explosionsRef (refillTurret i s) = explosionsRef s"
  "citiesRef (refillTurret i s) = citiesRef s"
  "gameStateRef (refillTurret i s) = gameStateRef s"
  "gameState (refillTurret i s) = gameState s"
  "isWaveTransitionRef (refillTurret i s) = isWaveTransitionRef s"
  "isWaveTransition (refillTurret i s) = isWaveTransition s"
  "waveTimeoutRef (refillTurret i s) = waveTimeoutRef s"
  "waveRef (refillTurret i s) = waveRef s"
  "wave (refillTurret i s) = wave s"
  "difficultyRef (refillTurret i s) = difficultyRef s"
  "difficulty (refillTurret i s) = difficulty s"
  "spawnTimerRef (refillTurret i s) = spawnTimerRef s"
  "rocketsSpawnedInWaveRef (refillTurret i s) = rocketsSpawnedInWaveRef s"
  "totalRocketsInWaveRef (refillTurret i s) = totalRocketsInWaveRef s"
  "lastTimeRef (refillTurret i s) = lastTimeRef s"
  "randomCalls (refillTurret i s) = randomCalls s"
  "randomDraws (refillTurret i s) = randomDraws s"
  by (simp_all add: refillTurret_def Let_def)

lemma refill_prefix:
  "k \<le> length (turretsRef s) \<Longrightarrow>
     turretsRef (fold refillTurret [0..<k] s) =
       map refilled (take k (turretsRef s)) @ drop k (turretsRef s)
   \<and> scoreRef (fold refillTurret [0..<k] s) =
       scoreRef s + sum_list (map ammoBonus (take k (turretsRef s)))"
proof (induction k)
  case 0
  show ?case by simp
next
  case (Suc k)
  then have k: "k < length (turretsRef s)" and IH: "k \<le> length (turretsRef s)" by simp_all
  note ih = Suc.IH [OF IH]
  show ?case
    unfolding fold_upt_Suc
    using ih k
    by (simp add: refillTurret_fields nth_visited0 update_visited0 take_Suc_conv_app_nth
          del: upt_Suc)
qed

lemma cityBonus_fields:
  "scoreRef (cityBonus i s) = scoreRef s + (if standing (citiesRef s ! i) then CITY_BONUS else 0)"
  "citiesRef (cityBonus i s) = citiesRef s"
  by (simp_all add: cityBonus_def Let_def standing_def)

lemma cityBonus_passive:
  "rocketsRef (cityBonus i s) = rocketsRef s"
  "missilesRef (cityBonus i s) = missilesRef s"
  "explosionsRef (cityBonus i s) = explosionsRef s"
  "turretsRef (cityBonus i s) = turretsRef s"
  "gameStateRef (cityBonus i s) = gameStateRef s"
  "gameState (cityBonus i s) = gameState s"
  "isWaveTransitionRef (cityBonus i s) = isWaveTransitionRef s"
  "isWaveTransition (cityBonus i s) = isWaveTransition s"
  "waveTimeoutRef (cityBonus i s) = waveTimeoutRef s"
  "waveRef (cityBonus i s) = waveRef s"
  "wave (cityBonus i s) = wave s"
  "difficultyRef (cityBonus i s) = difficultyRef s"
  "difficulty (cityBonus i s) = difficulty s"
  "spawnTimerRef (cityBonus i s) = spawnTimerRef s"
  "rocketsSpawnedInWaveRef (cityBonus i s) = rocketsSpawnedInWaveRef s"
  "totalRocketsInWaveRef (cityBonus i s) = totalRocketsInWaveRef s"
  "lastTimeRef (cityBonus i s) = lastTimeRef s"
  "randomCalls (cityBonus i s) = randomCalls s"
  "randomDraws (cityBonus i s) = randomDraws s"
  by (simp_all add: cityBonus_def Let_def)

lemma cityBonus_prefix:
  "k \<le> length (citiesRef s) \<Longrightarrow>
     citiesRef (fold cityBonus [0..<k] s) = citiesRef s
   \<and> scoreRef (fold cityBonus [0..<k] s) =
       scoreRef s + CITY_BONUS * real (length (filter standing (take k (citiesRef s))))"
proof (induction k)
  case 0
  show ?case by simp
next
  case (Suc k)
  then have k: "k < length (citiesRef s)" and IH: "k \<le> length (citiesRef s)" by simp_all
  note ih = Suc.IH [OF IH]
  show ?case
    unfolding fold_upt_Suc
    using ih k
    by (simp add: cityBonus_fields take_Suc_conv_app_nth algebra_simps del: upt_Suc)
qed

lemma startNextWave_fields:
  "turretsRef (startNextWave cD s) = map refilled (turretsRef s)"
  "scoreRef (startNextWave cD s) =
     scoreRef s + sum_list (map ammoBonus (turretsRef s))
       + CITY_BONUS * real (length (filter standing (citiesRef s)))"
  "waveRef (startNextWave cD s) = waveRef s + 1"
  "wave (startNextWave cD s) = waveRef s + 1"
  "rocketsSpawnedInWaveRef (startNextWave cD s) = 0"
  "totalRocketsInWaveRef (startNextWave cD s) =
     totalRocketsInWaveRef s + (if cD = EASY then 5 else if cD = NORMAL then 8 else 12)"
  "isWaveTransitionRef (startNextWave cD s) = False"
  "isWaveTransition (startNextWave cD s) = False"
  "citiesRef (startNextWave cD s) = citiesRef s"
  "gameStateRef (startNextWave cD s) = gameStateRef s"
  "gameState (startNextWave cD s) = gameState s"
  "rocketsRef (startNextWave cD s) = rocketsRef s"
  "missilesRef (startNextWave cD s) = missilesRef s"
  "explosionsRef (startNextWave cD s) = explosionsRef s"
  "waveTimeoutRef (startNextWave cD s) = waveTimeoutRef s"
proof -
  let ?s1 = "fold refillTurret [0..<length (turretsRef s)] s"
  let ?s2 = "fold cityBonus [0..<length (citiesRef ?s1)] ?s1"
  have c1: "citiesRef ?s1 = citiesRef s"
    by (rule fold_preserves) (simp_all add: refillTurret_passive)
  have t2: "turretsRef ?s2 = turretsRef ?s1"
    by (rule fold_preserves) (simp_all add: cityBonus_passive)
  have w1: "waveRef ?s2 = waveRef s"
    by (rule fold_preserves, rule fold_preserves) (simp_all add: cityBonus_passive refillTurret_passive)
  have n1: "totalRocketsInWaveRef ?s2 = totalRocketsInWaveRef s"
    by (rule fold_preserves, rule fold_preserves) (simp_all add: cityBonus_passive refillTurret_passive)
  have g1: "gameStateRef ?s2 = gameStateRef s"
    by (rule fold_preserves, rule fold_preserves) (simp_all add: cityBonus_passive refillTurret_passive)
  have g2: "gameState ?s2 = gameState s"
    by (rule fold_preserves, rule fold_preserves) (simp_all add: cityBonus_passive refillTurret_passive)
  have r1: "rocketsRef ?s2 = rocketsRef s"
    by (rule fold_preserves, rule fold_preserves) (simp_all add: cityBonus_passive refillTurret_passive)
  have m1: "missilesRef ?s2 = missilesRef s"
    by (rule fold_preserves, rule fold_preserves) (simp_all add: cityBonus_passive refillTurret_passive)
  have e1: "explosionsRef ?s2 = explosionsRef s"
    by (rule fold_preserves, rule fold_preserves) (simp_all add: cityBonus_passive refillTurret_passive)
  have wt: "waveTimeoutRef ?s2 = waveTimeoutRef s"
    by (rule fold_preserves, rule fold_preserves) (simp_all add: cityBonus_passive refillTurret_passive)
  have rf: "turretsRef ?s1 = map refilled (turretsRef s)"
    and sc1: "scoreRef ?s1 = scoreRef s + sum_list (map ammoBonus (turretsRef s))"
    using refill_prefix [of "length (turretsRef s)" s] by simp_all
  have cb: "citiesRef ?s2 = citiesRef ?s1"
    and sc2: "scoreRef ?s2 = scoreRef ?s1 + CITY_BONUS * real (length (filter standing (citiesRef ?s1)))"
    using cityBonus_prefix [of "length (citiesRef ?s1)" ?s1] by simp_all
  show "turretsRef (startNextWave cD s) = map refilled (turretsRef s)"
    by (simp add: startNextWave_def Let_def t2 rf)
  show "scoreRef (startNextWave cD s) =
     scoreRef s + sum_list (map ammoBonus (turretsRef s))
       + CITY_BONUS * real (length (filter standing (citiesRef s)))"
    by (simp add: startNextWave_def Let_def sc2 [unfolded c1] sc1 c1)
  show "waveRef (startNextWave cD s) = waveRef s + 1"
    by (simp add: startNextWave_def Let_def w1)
  show "wave (startNextWave cD s) = waveRef s + 1"
    by (simp add: startNextWave_def Let_def w1)
  show "rocketsSpawnedInWaveRef (startNextWave cD s) = 0"
    by (simp add: startNextWave_def Let_def)
  show "totalRocketsInWaveRef (startNextWave cD s) =
     totalRocketsInWaveRef s + (if cD = EASY then 5 else if cD = NORMAL then 8 else 12)"
    by (simp add: startNextWave_def Let_def n1)
  show "isWaveTransitionRef (startNextWave cD s) = False"
    by (simp add: startNextWave_def Let_def)
  show "isWaveTransition (startNextWave cD s) = False"
    by (simp add: startNextWave_def Let_def)
  show "citiesRef (startNextWave cD s) = citiesRef s"
    by (simp add: startNextWave_def Let_def cb [unfolded c1] c1)
  show "gameStateRef (startNextWave cD s) = gameStateRef s"
    by (simp add: startNextWave_def Let_def g1)
  show "gameState (startNextWave cD s) = gameState s"
    by (simp add: startNextWave_def Let_def g2)
  show "rocketsRef (startNextWave cD s) = rocketsRef s"
    by (simp add: startNextWave_def Let_def r1)
  show "missilesRef (startNextWave cD s) = missilesRef s"
    by (simp add: startNextWave_def Let_def m1)
  show "explosionsRef (startNextWave cD s) = explosionsRef s"
    by (simp add: startNextWave_def Let_def e1)
  show "waveTimeoutRef (startNextWave cD s) = waveTimeoutRef s"
    by (simp add: startNextWave_def Let_def wt)
qed

subsection \<open>The frame, field by field\<close>

lemma Rep_halves: "Rep_draw (halves n) = 1/2"
  by (simp add: halves_def Abs_draw_inverse)

lemma spawnRocket_passive:
  "scoreRef (spawnRocket cD cW s) = scoreRef s"
  "score (spawnRocket cD cW s) = score s"
  "missilesRef (spawnRocket cD cW s) = missilesRef s"
  "explosionsRef (spawnRocket cD cW s) = explosionsRef s"
  "turretsRef (spawnRocket cD cW s) = turretsRef s"
  "citiesRef (spawnRocket cD cW s) = citiesRef s"
  "gameStateRef (spawnRocket cD cW s) = gameStateRef s"
  "gameState (spawnRocket cD cW s) = gameState s"
  "isWaveTransitionRef (spawnRocket cD cW s) = isWaveTransitionRef s"
  "isWaveTransition (spawnRocket cD cW s) = isWaveTransition s"
  "waveTimeoutRef (spawnRocket cD cW s) = waveTimeoutRef s"
  "waveRef (spawnRocket cD cW s) = waveRef s"
  "wave (spawnRocket cD cW s) = wave s"
  "difficultyRef (spawnRocket cD cW s) = difficultyRef s"
  "difficulty (spawnRocket cD cW s) = difficulty s"
  "spawnTimerRef (spawnRocket cD cW s) = spawnTimerRef s"
  "rocketsSpawnedInWaveRef (spawnRocket cD cW s) = rocketsSpawnedInWaveRef s"
  "totalRocketsInWaveRef (spawnRocket cD cW s) = totalRocketsInWaveRef s"
  "lastTimeRef (spawnRocket cD cW s) = lastTimeRef s"
  "randomDraws (spawnRocket cD cW s) = randomDraws s"
  by (simp_all add: spawnRocket_def Let_def Math_random_def)

lemma spawnStep_passive:
  "scoreRef (spawnStep cD cW dt s) = scoreRef s"
  "score (spawnStep cD cW dt s) = score s"
  "missilesRef (spawnStep cD cW dt s) = missilesRef s"
  "explosionsRef (spawnStep cD cW dt s) = explosionsRef s"
  "turretsRef (spawnStep cD cW dt s) = turretsRef s"
  "citiesRef (spawnStep cD cW dt s) = citiesRef s"
  "gameStateRef (spawnStep cD cW dt s) = gameStateRef s"
  "gameState (spawnStep cD cW dt s) = gameState s"
  "isWaveTransitionRef (spawnStep cD cW dt s) = isWaveTransitionRef s"
  "isWaveTransition (spawnStep cD cW dt s) = isWaveTransition s"
  "waveTimeoutRef (spawnStep cD cW dt s) = waveTimeoutRef s"
  "waveRef (spawnStep cD cW dt s) = waveRef s"
  "wave (spawnStep cD cW dt s) = wave s"
  "difficultyRef (spawnStep cD cW dt s) = difficultyRef s"
  "difficulty (spawnStep cD cW dt s) = difficulty s"
  "totalRocketsInWaveRef (spawnStep cD cW dt s) = totalRocketsInWaveRef s"
  "lastTimeRef (spawnStep cD cW dt s) = lastTimeRef s"
  "randomDraws (spawnStep cD cW dt s) = randomDraws s"
  by (simp_all add: spawnStep_def Let_def spawnRocket_passive)

lemma waveCompletionCheck_passive:
  "scoreRef (waveCompletionCheck cD s) = scoreRef s"
  "score (waveCompletionCheck cD s) = score s"
  "rocketsRef (waveCompletionCheck cD s) = rocketsRef s"
  "missilesRef (waveCompletionCheck cD s) = missilesRef s"
  "explosionsRef (waveCompletionCheck cD s) = explosionsRef s"
  "turretsRef (waveCompletionCheck cD s) = turretsRef s"
  "citiesRef (waveCompletionCheck cD s) = citiesRef s"
  "gameStateRef (waveCompletionCheck cD s) = gameStateRef s"
  "gameState (waveCompletionCheck cD s) = gameState s"
  "waveRef (waveCompletionCheck cD s) = waveRef s"
  "wave (waveCompletionCheck cD s) = wave s"
  "difficultyRef (waveCompletionCheck cD s) = difficultyRef s"
  "difficulty (waveCompletionCheck cD s) = difficulty s"
  "spawnTimerRef (waveCompletionCheck cD s) = spawnTimerRef s"
  "rocketsSpawnedInWaveRef (waveCompletionCheck cD s) = rocketsSpawnedInWaveRef s"
  "totalRocketsInWaveRef (waveCompletionCheck cD s) = totalRocketsInWaveRef s"
  "lastTimeRef (waveCompletionCheck cD s) = lastTimeRef s"
  "randomDraws (waveCompletionCheck cD s) = randomDraws s"
  "randomCalls (waveCompletionCheck cD s) = randomCalls s"
  by (simp_all add: waveCompletionCheck_def)

lemma waveBlock_passive:
  "scoreRef (waveBlock cD cW dt s) = scoreRef s"
  "score (waveBlock cD cW dt s) = score s"
  "missilesRef (waveBlock cD cW dt s) = missilesRef s"
  "explosionsRef (waveBlock cD cW dt s) = explosionsRef s"
  "turretsRef (waveBlock cD cW dt s) = turretsRef s"
  "citiesRef (waveBlock cD cW dt s) = citiesRef s"
  "gameStateRef (waveBlock cD cW dt s) = gameStateRef s"
  "gameState (waveBlock cD cW dt s) = gameState s"
  "waveRef (waveBlock cD cW dt s) = waveRef s"
  "wave (waveBlock cD cW dt s) = wave s"
  "difficultyRef (waveBlock cD cW dt s) = difficultyRef s"
  "difficulty (waveBlock cD cW dt s) = difficulty s"
  "totalRocketsInWaveRef (waveBlock cD cW dt s) = totalRocketsInWaveRef s"
  "lastTimeRef (waveBlock cD cW dt s) = lastTimeRef s"
  "randomDraws (waveBlock cD cW dt s) = randomDraws s"
  by (simp_all add: waveBlock_def waveCompletionCheck_passive spawnStep_passive)

lemma cleanup_fields:
  "rocketsRef (cleanup s) = filter active (rocketsRef s)"
  "missilesRef (cleanup s) = filter active (missilesRef s)"
  "explosionsRef (cleanup s) = filter active (explosionsRef s)"
  "turretsRef (cleanup s) = turretsRef s"
  "citiesRef (cleanup s) = citiesRef s"
  "scoreRef (cleanup s) = scoreRef s"
  "score (cleanup s) = score s"
  "gameStateRef (cleanup s) = gameStateRef s"
  "gameState (cleanup s) = gameState s"
  "isWaveTransitionRef (cleanup s) = isWaveTransitionRef s"
  "isWaveTransition (cleanup s) = isWaveTransition s"
  "waveTimeoutRef (cleanup s) = waveTimeoutRef s"
  "waveRef (cleanup s) = waveRef s"
  "wave (cleanup s) = wave s"
  "spawnTimerRef (cleanup s) = spawnTimerRef s"
  "rocketsSpawnedInWaveRef (cleanup s) = rocketsSpawnedInWaveRef s"
  "totalRocketsInWaveRef (cleanup s) = totalRocketsInWaveRef s"
  by (simp_all add: cleanup_def)

lemma checkWinLoss_fields:
  "rocketsRef (checkWinLoss s) = rocketsRef s"
  "missilesRef (checkWinLoss s) = missilesRef s"
  "explosionsRef (checkWinLoss s) = explosionsRef s"
  "turretsRef (checkWinLoss s) = turretsRef s"
  "citiesRef (checkWinLoss s) = citiesRef s"
  "scoreRef (checkWinLoss s) = scoreRef s"
  "score (checkWinLoss s) = score s"
  "isWaveTransitionRef (checkWinLoss s) = isWaveTransitionRef s"
  "isWaveTransition (checkWinLoss s) = isWaveTransition s"
  "waveTimeoutRef (checkWinLoss s) = waveTimeoutRef s"
  "waveRef (checkWinLoss s) = waveRef s"
  "wave (checkWinLoss s) = wave s"
  "spawnTimerRef (checkWinLoss s) = spawnTimerRef s"
  "rocketsSpawnedInWaveRef (checkWinLoss s) = rocketsSpawnedInWaveRef s"
  "totalRocketsInWaveRef (checkWinLoss s) = totalRocketsInWaveRef s"
  by (simp_all add: checkWinLoss_def Let_def)

lemma checkWinLoss_state:
  "gameStateRef (checkWinLoss s) =
     (if list_all destroyed (turretsRef s) then LOST
      else if scoreRef s \<ge> WIN_SCORE then WON else gameStateRef s)"
  "gameState (checkWinLoss s) =
     (if list_all destroyed (turretsRef s) then LOST
      else if scoreRef s \<ge> WIN_SCORE then WON else gameState s)"
  by (simp_all add: checkWinLoss_def Let_def)

text \<open>The fields of a frame, in terms of the state after the wave block.\<close>


lemma update_fields:
  "turretsRef (update cD cW dt s) =
     fold (impactOn dt) (rocketsRef (waveBlock cD cW dt s)) (turretsRef s)"
  "citiesRef (update cD cW dt s) =
     fold (impactOn dt) (rocketsRef (waveBlock cD cW dt s)) (citiesRef s)"
  "missilesRef (update cD cW dt s) = map (land dt) (missilesRef s)"
  by (simp_all add: update_def Let_def updateExplosions_passive updateMissiles_passive
        updateMissiles_fields updateRockets_fields updateRockets_passive waveBlock_passive)

lemma update_explosions_before:
  "explosionsRef (updateMissiles dt (updateRockets dt s)) =
     explosionsRef s @ impactExplosions dt (randomDraws s) (randomCalls s) (rocketsRef s)
       @ interceptExplosions dt (randomDraws s)
           (randomCalls s + length (filter (landed dt) (rocketsRef s))) (missilesRef s)"
  by (simp add: updateMissiles_fields updateRockets_fields updateRockets_passive)

lemma update_score:
  "scoreRef (update cD cW dt s) =
     scoreRef s + POINTS_PER_KILL * real (kills
       (map (pulse dt) (explosionsRef (updateMissiles dt (updateRockets dt (waveBlock cD cW dt s)))))
       (map (land dt) (rocketsRef (waveBlock cD cW dt s))))"
  by (simp add: update_def Let_def updateExplosions_fields updateMissiles_passive
        updateRockets_fields updateRockets_passive waveBlock_passive)

lemma loop_turrets:
  "turretsRef (loop cD cW time s) =
     fold (impactOn (time - lastTimeRef s))
       (rocketsRef (waveBlock cD cW (time - lastTimeRef s) (s\<lparr>lastTimeRef := time\<rparr>))) (turretsRef s)"
  by (simp add: loop_def Let_def checkWinLoss_fields cleanup_fields update_fields)

lemma loop_score:
  "scoreRef (loop cD cW time s) = scoreRef (update cD cW (time - lastTimeRef s) (s\<lparr>lastTimeRef := time\<rparr>))"
  by (simp add: loop_def Let_def checkWinLoss_fields cleanup_fields)

lemma loop_state:
  "gameStateRef (loop cD cW time s) =
     (if list_all destroyed (turretsRef (loop cD cW time s)) then LOST
      else if scoreRef (loop cD cW time s) \<ge> WIN_SCORE then WON else gameStateRef s)"
  "gameState (loop cD cW time s) =
     (if list_all destroyed (turretsRef (loop cD cW time s)) then LOST
      else if scoreRef (loop cD cW time s) \<ge> WIN_SCORE then WON else gameState s)"
  by (simp_all add: loop_def Let_def checkWinLoss_state checkWinLoss_fields cleanup_fields
        update_def updateExplosions_passive updateMissiles_passive updateRockets_passive
        waveBlock_passive)

lemma sqrt_less_radius:
  assumes "0 \<le> q"
  shows "sqrt q < R \<longleftrightarrow> 0 < R \<and> q < R * R"
proof (cases "0 < R")
  case True
  have "sqrt q < R \<longleftrightarrow> sqrt q < sqrt (R * R)"
    using True by simp
  also have "\<dots> \<longleftrightarrow> q < R * R"
    by (rule real_sqrt_less_iff)
  finally show ?thesis using True by simp
next
  case False
  have "0 \<le> sqrt q" using assms by simp
  with False have "\<not> sqrt q < R" by linarith
  with False show ?thesis by simp
qed

lemma inRange_iff:
  "inRange e r \<longleftrightarrow>
     0 < radius e \<and>
     (entity.x r - entity.x e) * (entity.x r - entity.x e)
       + (entity.y r - entity.y e) * (entity.y r - entity.y e) < radius e * radius e"
  by (simp add: inRange_def Let_def sqrt_less_radius)

lemma kills_no_rockets: "kills es [] = 0"
  by (induction es) simp_all

lemma chains_no_rockets: "chains draws n es [] = []"
  by (induction es arbitrary: n) simp_all

lemma update_wave_fields:
  "isWaveTransitionRef (update cD cW dt s) = isWaveTransitionRef (waveBlock cD cW dt s)"
  "isWaveTransition (update cD cW dt s) = isWaveTransition (waveBlock cD cW dt s)"
  "waveTimeoutRef (update cD cW dt s) = waveTimeoutRef (waveBlock cD cW dt s)"
  "rocketsSpawnedInWaveRef (update cD cW dt s) = rocketsSpawnedInWaveRef (waveBlock cD cW dt s)"
  "spawnTimerRef (update cD cW dt s) = spawnTimerRef (waveBlock cD cW dt s)"
  "waveRef (update cD cW dt s) = waveRef s"
  "totalRocketsInWaveRef (update cD cW dt s) = totalRocketsInWaveRef s"
  by (simp_all add: update_def Let_def updateExplosions_passive updateMissiles_passive
        updateRockets_passive waveBlock_passive)

lemma loop_wave_fields:
  "isWaveTransitionRef (loop cD cW time s) =
     isWaveTransitionRef (waveBlock cD cW (time - lastTimeRef s) (s\<lparr>lastTimeRef := time\<rparr>))"
  "isWaveTransition (loop cD cW time s) =
     isWaveTransition (waveBlock cD cW (time - lastTimeRef s) (s\<lparr>lastTimeRef := time\<rparr>))"
  "waveTimeoutRef (loop cD cW time s) =
     waveTimeoutRef (waveBlock cD cW (time - lastTimeRef s) (s\<lparr>lastTimeRef := time\<rparr>))"
  "rocketsSpawnedInWaveRef (loop cD cW time s) =
     rocketsSpawnedInWaveRef (waveBlock cD cW (time - lastTimeRef s) (s\<lparr>lastTimeRef := time\<rparr>))"
  "waveRef (loop cD cW time s) = waveRef s"
  "totalRocketsInWaveRef (loop cD cW time s) = totalRocketsInWaveRef s"
  by (simp_all add: loop_def Let_def checkWinLoss_fields cleanup_fields update_wave_fields)

lemma loop_cities:
  "citiesRef (loop cD cW time s) =
     fold (impactOn (time - lastTimeRef s))
       (rocketsRef (waveBlock cD cW (time - lastTimeRef s) (s\<lparr>lastTimeRef := time\<rparr>))) (citiesRef s)"
  by (simp add: loop_def Let_def checkWinLoss_fields cleanup_fields update_fields)

lemma waveBlock_entry:
  assumes "\<not> isWaveTransitionRef s"
    and "totalRocketsInWaveRef s \<le> rocketsSpawnedInWaveRef (spawnStep cD cW dt s)"
    and "rocketsRef (spawnStep cD cW dt s) = []"
  shows "isWaveTransitionRef (waveBlock cD cW dt s)" "isWaveTransition (waveBlock cD cW dt s)"
    "waveTimeoutRef (waveBlock cD cW dt s) = Some (Timeout 2000 cD)"
    "rocketsRef (waveBlock cD cW dt s) = []"
  using assms by (simp_all add: waveBlock_def waveCompletionCheck_def spawnStep_passive)

lemma waveBlock_skipped: "isWaveTransitionRef s \<Longrightarrow> waveBlock cD cW dt s = s"
  by (simp add: waveBlock_def)

lemma waveTimeoutCallback_fields:
  "waveTimeoutRef (waveTimeoutCallback cD s) = None"
  "gameStateRef s \<noteq> PLAYING \<Longrightarrow> waveTimeoutCallback cD s = s\<lparr>waveTimeoutRef := None\<rparr>"
  "gameStateRef s = PLAYING \<Longrightarrow> scoreRef (waveTimeoutCallback cD s) = scoreRef (startNextWave cD s)"
  "gameStateRef s = PLAYING \<Longrightarrow> turretsRef (waveTimeoutCallback cD s) = turretsRef (startNextWave cD s)"
  "gameStateRef s = PLAYING \<Longrightarrow> waveRef (waveTimeoutCallback cD s) = waveRef (startNextWave cD s)"
  "gameStateRef s = PLAYING \<Longrightarrow> wave (waveTimeoutCallback cD s) = wave (startNextWave cD s)"
  "gameStateRef s = PLAYING \<Longrightarrow>
     rocketsSpawnedInWaveRef (waveTimeoutCallback cD s) = rocketsSpawnedInWaveRef (startNextWave cD s)"
  "gameStateRef s = PLAYING \<Longrightarrow>
     totalRocketsInWaveRef (waveTimeoutCallback cD s) = totalRocketsInWaveRef (startNextWave cD s)"
  "gameStateRef s = PLAYING \<Longrightarrow>
     isWaveTransitionRef (waveTimeoutCallback cD s) = isWaveTransitionRef (startNextWave cD s)"
  "gameStateRef s = PLAYING \<Longrightarrow>
     isWaveTransition (waveTimeoutCallback cD s) = isWaveTransition (startNextWave cD s)"
  by (simp_all add: waveTimeoutCallback_def Let_def)

lemma loop_entry:
  assumes "\<not> isWaveTransitionRef s"
    and "totalRocketsInWaveRef s \<le>
           rocketsSpawnedInWaveRef (spawnStep cD cW (time - lastTimeRef s) (s\<lparr>lastTimeRef := time\<rparr>))"
    and "rocketsRef (spawnStep cD cW (time - lastTimeRef s) (s\<lparr>lastTimeRef := time\<rparr>)) = []"
  shows "isWaveTransitionRef (loop cD cW time s)" "isWaveTransition (loop cD cW time s)"
    "waveTimeoutRef (loop cD cW time s) = Some (Timeout 2000 cD)"
    "scoreRef (loop cD cW time s) = scoreRef s"
    "turretsRef (loop cD cW time s) = turretsRef s"
    "citiesRef (loop cD cW time s) = citiesRef s"
    "waveRef (loop cD cW time s) = waveRef s"
proof -
  let ?s = "s\<lparr>lastTimeRef := time\<rparr>"
  have a: "\<not> isWaveTransitionRef ?s" using assms(1) by simp
  have b: "totalRocketsInWaveRef ?s \<le> rocketsSpawnedInWaveRef (spawnStep cD cW (time - lastTimeRef s) ?s)"
    using assms(2) by simp
  note e = waveBlock_entry [OF a b assms(3)]
  show "isWaveTransitionRef (loop cD cW time s)" "isWaveTransition (loop cD cW time s)"
    "waveTimeoutRef (loop cD cW time s) = Some (Timeout 2000 cD)"
    by (simp_all add: loop_wave_fields e)
  show "scoreRef (loop cD cW time s) = scoreRef s"
    by (simp add: loop_score update_score e kills_no_rockets)
  show "turretsRef (loop cD cW time s) = turretsRef s"
    by (simp add: loop_turrets e)
  show "citiesRef (loop cD cW time s) = citiesRef s"
    by (simp add: loop_cities e)
  show "waveRef (loop cD cW time s) = waveRef s"
    by (simp add: loop_wave_fields)
qed

lemma loop_in_transition:
  assumes "isWaveTransitionRef s"
  shows "isWaveTransitionRef (loop cD cW time s)" "waveTimeoutRef (loop cD cW time s) = waveTimeoutRef s"
  using assms by (simp_all add: loop_wave_fields waveBlock_skipped)

subsection \<open>Spawning\<close>

lemma spawnStep_rockets:
  "rocketsRef (spawnStep cD cW dt s) \<noteq> rocketsRef s \<or>
   rocketsSpawnedInWaveRef (spawnStep cD cW dt s) \<noteq> rocketsSpawnedInWaveRef s \<Longrightarrow>
     spawnTimerRef s + dt > spawnInterval s \<and> rocketsSpawnedInWaveRef s < totalRocketsInWaveRef s"
  by (auto simp add: spawnStep_def Let_def spawnInterval_def split: if_splits)

lemma waveBlock_rockets:
  "rocketsRef (waveBlock cD cW dt s) \<noteq> rocketsRef s \<or>
   rocketsSpawnedInWaveRef (waveBlock cD cW dt s) \<noteq> rocketsSpawnedInWaveRef s \<Longrightarrow>
     \<not> isWaveTransitionRef s \<and> spawnTimerRef s + dt > spawnInterval s
       \<and> rocketsSpawnedInWaveRef s < totalRocketsInWaveRef s"
  using spawnStep_rockets [of cD cW dt s]
  by (auto simp add: waveBlock_def waveCompletionCheck_passive split: if_splits)

lemma spawnInterval_eq:
  "spawnInterval s =
     max 400 ((1500 - waveRef s * 100) *
       (case difficultyRef s of EASY \<Rightarrow> 1.2 | NORMAL \<Rightarrow> 1 | HARD \<Rightarrow> 0.8))"
  by (cases "difficultyRef s") (simp_all add: spawnInterval_def Let_def)

subsection \<open>The selection of \<open>fireMissile\<close>\<close>

text \<open>The closure variables of \<open>fireMissile\<close> after the first \<open>k\<close> turrets.\<close>

lemma considerTurret_prefix:
  "k \<le> length ts \<Longrightarrow>
   (case fold (considerTurret tX ts) [0..<k] (None, Infinity) of
      (None, m) \<Rightarrow> m = Infinity \<and> (\<forall>j<k. \<not> eligible (ts ! j))
    | (Some b, m) \<Rightarrow> b < k \<and> eligible (ts ! b) \<and> m = Finite (aim tX (ts ! b))
        \<and> (\<forall>j<k. eligible (ts ! j) \<longrightarrow> aim tX (ts ! b) \<le> aim tX (ts ! j))
        \<and> (\<forall>j<b. eligible (ts ! j) \<longrightarrow> aim tX (ts ! b) < aim tX (ts ! j)))"
proof (induction k)
  case 0
  show ?case by simp
next
  case (Suc k)
  then have IH: "k \<le> length ts" by simp
  note ih = Suc.IH [OF IH]
  obtain b m where acc: "fold (considerTurret tX ts) [0..<k] (None, Infinity) = (b, m)"
    by (cases "fold (considerTurret tX ts) [0..<k] (None, Infinity)")
  show ?case
  proof (cases b)
    case None
    with ih acc have m: "m = Infinity" and none: "\<forall>j<k. \<not> eligible (ts ! j)" by simp_all
    show ?thesis
    proof (cases "eligible (ts ! k)")
      case True
      then have step: "fold (considerTurret tX ts) [0..<Suc k] (None, Infinity) = (Some k, Finite (aim tX (ts ! k)))"
        by (simp add: acc None m considerTurret_def Let_def eligible_def aim_def)
      show ?thesis
        unfolding step using True none by (simp add: less_Suc_eq)
    next
      case False
      then have step: "fold (considerTurret tX ts) [0..<Suc k] (None, Infinity) = (None, Infinity)"
        by (simp add: acc None m considerTurret_def Let_def eligible_def)
      show ?thesis
        unfolding step using False none by (simp add: less_Suc_eq)
    qed
  next
    case (Some b')
    with ih acc have b: "b' < k" "eligible (ts ! b')" "m = Finite (aim tX (ts ! b'))"
      and le: "\<forall>j<k. eligible (ts ! j) \<longrightarrow> aim tX (ts ! b') \<le> aim tX (ts ! j)"
      and lt: "\<forall>j<b'. eligible (ts ! j) \<longrightarrow> aim tX (ts ! b') < aim tX (ts ! j)"
      by simp_all
    show ?thesis
    proof (cases "eligible (ts ! k) \<and> aim tX (ts ! k) < aim tX (ts ! b')")
      case True
      then have step: "fold (considerTurret tX ts) [0..<Suc k] (None, Infinity) = (Some k, Finite (aim tX (ts ! k)))"
        by (simp add: acc Some b considerTurret_def Let_def eligible_def aim_def)
      have "\<forall>j<Suc k. eligible (ts ! j) \<longrightarrow> aim tX (ts ! k) \<le> aim tX (ts ! j)"
        using le True by (fastforce simp: less_Suc_eq)
      moreover have "\<forall>j<k. eligible (ts ! j) \<longrightarrow> aim tX (ts ! k) < aim tX (ts ! j)"
        using le True by fastforce
      ultimately show ?thesis
        unfolding step using True by simp
    next
      case False
      then have step: "fold (considerTurret tX ts) [0..<Suc k] (None, Infinity) = (Some b', m)"
        by (auto simp add: acc Some b considerTurret_def Let_def eligible_def aim_def)
      have "\<forall>j<Suc k. eligible (ts ! j) \<longrightarrow> aim tX (ts ! b') \<le> aim tX (ts ! j)"
        using le False by (auto simp: less_Suc_eq)
      then show ?thesis
        unfolding step using b lt by simp
    qed
  qed
qed

lemma closestTurret_None:
  "closestTurret tX ts = None \<longleftrightarrow> (\<forall>t\<in>set ts. \<not> eligible t)"
proof -
  obtain b m where acc: "fold (considerTurret tX ts) [0..<length ts] (None, Infinity) = (b, m)"
    by (cases "fold (considerTurret tX ts) [0..<length ts] (None, Infinity)")
  show ?thesis
    using considerTurret_prefix [of "length ts" ts tX]
    by (cases b) (auto simp add: closestTurret_def acc in_set_conv_nth intro: nth_mem)
qed

lemma closestTurret_Some:
  assumes "closestTurret tX ts = Some b"
  shows "b < length ts" "eligible (ts ! b)"
    "\<forall>j<length ts. eligible (ts ! j) \<longrightarrow> aim tX (ts ! b) \<le> aim tX (ts ! j)"
    "\<forall>j<b. eligible (ts ! j) \<longrightarrow> aim tX (ts ! b) < aim tX (ts ! j)"
proof -
  obtain b0 m where acc: "fold (considerTurret tX ts) [0..<length ts] (None, Infinity) = (b0, m)"
    by (cases "fold (considerTurret tX ts) [0..<length ts] (None, Infinity)")
  with assms have b0: "b0 = Some b" by (simp add: closestTurret_def)
  from considerTurret_prefix [of "length ts" ts tX]
  show "b < length ts" "eligible (ts ! b)"
    "\<forall>j<length ts. eligible (ts ! j) \<longrightarrow> aim tX (ts ! b) \<le> aim tX (ts ! j)"
    "\<forall>j<b. eligible (ts ! j) \<longrightarrow> aim tX (ts ! b) < aim tX (ts ! j)"
    by (simp_all add: acc b0)
qed


lemma fireMissile_fields:
  assumes "gameState s = PLAYING" "\<not> isWaveTransition s" "closestTurret tX (turretsRef s) = Some b"
  shows "turretsRef (fireMissile tX tY s) =
           (turretsRef s)[b := (turretsRef s ! b)\<lparr>ammo := ammo (turretsRef s ! b) - 1\<rparr>]"
    "missilesRef (fireMissile tX tY s) = missilesRef s @
       [\<lparr>entity.id = Rep_draw (randomDraws s (randomCalls s)),
         x = City.x (turretsRef s ! b), y = City.y (turretsRef s ! b), active = True,
         startX = City.x (turretsRef s ! b), startY = City.y (turretsRef s ! b),
         targetX = tX, targetY = tY, speed = 0.04, progress = 0\<rparr>]"
  using assms by (simp_all add: fireMissile_def Let_def Math_random_def)

lemma fireMissile_noop:
  "gameState s \<noteq> PLAYING \<or> isWaveTransition s \<or> closestTurret tX (turretsRef s) = None \<Longrightarrow>
     fireMissile tX tY s = s"
  by (auto simp add: fireMissile_def)

subsection \<open>Explosions\<close>

lemma pulse_growing:
  assumes "growing e"
  shows "radius (pulse dt e) = radius e + 2 * (dt / 16)"
    "growing (pulse dt e) \<longleftrightarrow> radius (pulse dt e) < maxRadius e"
    "active (pulse dt e) = active e" "maxRadius (pulse dt e) = maxRadius e"
  using assms by (auto simp add: pulse_def Let_def)

lemma pulse_shrinking:
  assumes "\<not> growing e"
  shows "radius (pulse dt e) = radius e - dt / 16"
    "\<not> growing (pulse dt e)"
    "active (pulse dt e) \<longleftrightarrow> active e \<and> 0 < radius (pulse dt e)"
    "maxRadius (pulse dt e) = maxRadius e"
  using assms by (auto simp add: pulse_def Let_def)

lemma pulse_position:
  "entity.x (pulse dt e) = entity.x e" "entity.y (pulse dt e) = entity.y e"
  "entity.id (pulse dt e) = entity.id e"
  by (simp_all add: pulse_def Let_def)

lemma pulse_nonneg:
  assumes "0 \<le> dt" "0 \<le> radius e" "active (pulse dt e)"
  shows "0 \<le> radius (pulse dt e)"
proof (cases "growing e")
  case True
  then show ?thesis using assms by (simp add: pulse_growing)
next
  case False
  then show ?thesis using assms(3) pulse_shrinking(3) [OF False, of dt] by simp
qed

lemma impactExplosions_new:
  "e \<in> set (impactExplosions dt draws n ps) \<Longrightarrow>
     radius e = 0 \<and> maxRadius e = 30 \<and> growing e \<and> active e"
  by (induction ps arbitrary: n) (auto simp add: impactExplosion_def split: if_splits)

lemma interceptExplosions_new:
  "e \<in> set (interceptExplosions dt draws n ps) \<Longrightarrow>
     radius e = 0 \<and> maxRadius e = 50 \<and> growing e \<and> active e"
  by (induction ps arbitrary: n) (auto simp add: interceptExplosion_def split: if_splits)

lemma chainExplosions_new:
  "e \<in> set (chainExplosions draws n ex rs) \<Longrightarrow>
     radius e = 0 \<and> maxRadius e = 40 \<and> growing e \<and> active e"
  by (induction rs arbitrary: n) (auto simp add: chainExplosion_def split: if_splits)

lemma chains_new:
  "e \<in> set (chains draws n es rs) \<Longrightarrow> radius e = 0 \<and> maxRadius e = 40 \<and> growing e \<and> active e"
  by (induction es arbitrary: n rs) (auto dest: chainExplosions_new)

text \<open>The explosions of a frame before the cleanup: those of the session, pulsed, then the
  explosions of this frame's impacts and interceptions, pulsed as well, then the chain
  explosions.\<close>

lemma update_explosions:
  "explosionsRef (update cD cW dt s) =
     map (pulse dt) (explosionsRef s)
     @ map (pulse dt) (drop (length (explosionsRef s))
         (explosionsRef (updateMissiles dt (updateRockets dt (waveBlock cD cW dt s)))))
     @ chains (randomDraws s) (randomCalls (updateMissiles dt (updateRockets dt (waveBlock cD cW dt s))))
         (map (pulse dt) (explosionsRef (updateMissiles dt (updateRockets dt (waveBlock cD cW dt s)))))
         (map (land dt) (rocketsRef (waveBlock cD cW dt s)))"
proof -
  let ?w = "waveBlock cD cW dt s"
  let ?m = "updateMissiles dt (updateRockets dt ?w)"
  have e: "explosionsRef ?m = explosionsRef s @ drop (length (explosionsRef s)) (explosionsRef ?m)"
    by (simp add: update_explosions_before waveBlock_passive)
  have "explosionsRef (update cD cW dt s) =
      map (pulse dt) (explosionsRef ?m) @
      chains (randomDraws ?m) (randomCalls ?m) (map (pulse dt) (explosionsRef ?m)) (rocketsRef ?m)"
    by (simp add: update_def Let_def updateExplosions_fields)
  also have "randomDraws ?m = randomDraws s"
    by (simp add: updateMissiles_fields updateRockets_fields waveBlock_passive)
  also have "rocketsRef ?m = map (land dt) (rocketsRef ?w)"
    by (simp add: updateMissiles_passive updateRockets_fields)
  finally show ?thesis
    using e by (metis append.assoc map_append)
qed

lemma update_new_explosions:
  assumes "e \<in> set (drop (length (explosionsRef s))
         (explosionsRef (updateMissiles dt (updateRockets dt (waveBlock cD cW dt s)))))"
  shows "radius e = 0 \<and> growing e \<and> active e"
proof -
  from assms have "e \<in> set (impactExplosions dt (randomDraws (waveBlock cD cW dt s))
        (randomCalls (waveBlock cD cW dt s)) (rocketsRef (waveBlock cD cW dt s)))
     \<or> e \<in> set (interceptExplosions dt (randomDraws (waveBlock cD cW dt s))
        (randomCalls (waveBlock cD cW dt s) + length (filter (landed dt) (rocketsRef (waveBlock cD cW dt s))))
        (missilesRef (waveBlock cD cW dt s)))"
    by (simp add: update_explosions_before waveBlock_passive)
  then show ?thesis
    by (auto dest: impactExplosions_new interceptExplosions_new)
qed

lemma update_explosions_nonneg:
  assumes "0 \<le> dt" and "\<forall>e\<in>set (explosionsRef s). 0 \<le> radius e"
    and "e \<in> set (explosionsRef (update cD cW dt s))" and "active e"
  shows "0 \<le> radius e"
proof -
  from assms(3) consider
      (old) e0 where "e0 \<in> set (explosionsRef s)" "e = pulse dt e0"
    | (new) e0 where "e0 \<in> set (drop (length (explosionsRef s))
         (explosionsRef (updateMissiles dt (updateRockets dt (waveBlock cD cW dt s)))))" "e = pulse dt e0"
    | (chain) "e \<in> set (chains (randomDraws s)
         (randomCalls (updateMissiles dt (updateRockets dt (waveBlock cD cW dt s))))
         (map (pulse dt) (explosionsRef (updateMissiles dt (updateRockets dt (waveBlock cD cW dt s)))))
         (map (land dt) (rocketsRef (waveBlock cD cW dt s))))"
    unfolding update_explosions by auto
  then show ?thesis
  proof cases
    case old
    then show ?thesis using assms(1,2,4) pulse_nonneg by blast
  next
    case new
    from update_new_explosions [OF new(1)] have "0 \<le> radius e0" by simp
    then show ?thesis using new(2) assms(1,4) pulse_nonneg by blast
  next
    case chain
    then show ?thesis by (auto dest: chains_new)
  qed
qed

lemma loop_explosions:
  "explosionsRef (loop cD cW time s) =
     filter active (explosionsRef (update cD cW (time - lastTimeRef s) (s\<lparr>lastTimeRef := time\<rparr>)))"
  by (simp add: loop_def Let_def checkWinLoss_fields cleanup_fields)

subsection \<open>Impacts\<close>

lemma findIndex_Some:
  "findIndex p xs = Some i \<Longrightarrow> i < length xs \<and> p (xs ! i) \<and> (\<forall>j<i. \<not> p (xs ! j))"
proof (induction xs arbitrary: i)
  case Nil
  then show ?case by simp
next
  case (Cons a xs)
  show ?case
  proof (cases "p a")
    case True
    with Cons.prems show ?thesis by simp
  next
    case False
    with Cons.prems obtain i' where i': "findIndex p xs = Some i'" "i = Suc i'"
      by auto
    from Cons.IH [OF i'(1)] False i'(2) show ?thesis
      by (auto simp add: less_Suc_eq_0_disj)
  qed
qed

lemma findIndex_first:
  "k < length xs \<Longrightarrow> p (xs ! k) \<Longrightarrow> \<forall>j<k. \<not> p (xs ! j) \<Longrightarrow> findIndex p xs = Some k"
proof (induction xs arbitrary: k)
  case Nil
  then show ?case by simp
next
  case (Cons a xs)
  show ?case
  proof (cases k)
    case 0
    with Cons.prems show ?thesis by simp
  next
    case (Suc k')
    with Cons.prems have "\<not> p a" by auto
    moreover have "findIndex p xs = Some k'"
      using Cons.prems Suc by (intro Cons.IH) auto
    ultimately show ?thesis using Suc by simp
  qed
qed

lemma hitTarget_length [simp]: "length (hitTarget tX tY cs) = length cs"
  by (simp add: hitTarget_def split: option.splits)

lemma hitTarget_nth:
  "k < length cs \<Longrightarrow>
     City.x (hitTarget tX tY cs ! k) = City.x (cs ! k)
   \<and> City.y (hitTarget tX tY cs ! k) = City.y (cs ! k)
   \<and> (destroyed (cs ! k) \<longrightarrow> destroyed (hitTarget tX tY cs ! k))"
proof (cases "findIndex (\<lambda>c. City.x c = tX \<and> City.y c = tY) cs")
  case None
  then show ?thesis by (simp add: hitTarget_def)
next
  case (Some i)
  assume k: "k < length cs"
  from findIndex_Some [OF Some] have "i < length cs" by simp
  then show ?thesis
    using k by (cases "i = k") (simp_all add: hitTarget_def Some)
qed

lemma hitTarget_first:
  assumes "k < length cs" "City.x (cs ! k) = tX \<and> City.y (cs ! k) = tY"
    "\<forall>j<k. \<not> (City.x (cs ! j) = tX \<and> City.y (cs ! j) = tY)"
  shows "destroyed (hitTarget tX tY cs ! k)"
proof -
  have "findIndex (\<lambda>c. City.x c = tX \<and> City.y c = tY) cs = Some k"
    using assms by (intro findIndex_first) auto
  then show ?thesis using assms(1) by (simp add: hitTarget_def)
qed

lemma hitTarget_others:
  assumes "k < length cs" "\<not> (City.x (cs ! k) = tX \<and> City.y (cs ! k) = tY)"
  shows "hitTarget tX tY cs ! k = cs ! k"
proof (cases "findIndex (\<lambda>c. City.x c = tX \<and> City.y c = tY) cs")
  case None
  then show ?thesis by (simp add: hitTarget_def)
next
  case (Some i)
  from findIndex_Some [OF Some] assms(2) have "i \<noteq> k" by auto
  then show ?thesis by (simp add: hitTarget_def Some)
qed

lemma impactOn_length [simp]: "length (fold (impactOn dt) rs cs) = length cs"
  by (induction rs arbitrary: cs) (simp_all add: impactOn_def)

lemma impactOn_nth:
  "k < length cs \<Longrightarrow>
     City.x (fold (impactOn dt) rs cs ! k) = City.x (cs ! k)
   \<and> City.y (fold (impactOn dt) rs cs ! k) = City.y (cs ! k)
   \<and> (destroyed (cs ! k) \<longrightarrow> destroyed (fold (impactOn dt) rs cs ! k))"
proof (induction rs arbitrary: cs)
  case Nil
  show ?case by simp
next
  case (Cons r rs)
  have l: "k < length (impactOn dt r cs)"
    using Cons.prems by (simp add: impactOn_def)
  have "City.x (impactOn dt r cs ! k) = City.x (cs ! k)
      \<and> City.y (impactOn dt r cs ! k) = City.y (cs ! k)
      \<and> (destroyed (cs ! k) \<longrightarrow> destroyed (impactOn dt r cs ! k))"
    using hitTarget_nth [OF Cons.prems] by (simp add: impactOn_def)
  with Cons.IH [OF l] show ?case by simp
qed

lemma impactOn_others:
  assumes "k < length cs"
    and "\<forall>r\<in>set rs. landed dt r \<longrightarrow> \<not> (City.x (cs ! k) = targetX r \<and> City.y (cs ! k) = targetY r)"
  shows "fold (impactOn dt) rs cs ! k = cs ! k"
  using assms
proof (induction rs arbitrary: cs)
  case Nil
  show ?case by simp
next
  case (Cons r rs)
  have l: "k < length (impactOn dt r cs)"
    using Cons.prems by (simp add: impactOn_def)
  have same: "impactOn dt r cs ! k = cs ! k"
    using Cons.prems hitTarget_others [of k cs "targetX r" "targetY r"] by (simp add: impactOn_def)
  have "fold (impactOn dt) rs (impactOn dt r cs) ! k = impactOn dt r cs ! k"
    using Cons.prems by (intro Cons.IH [OF l]) (simp add: same)
  then show ?case by (simp add: same)
qed

lemma impactOn_first:
  assumes "r \<in> set rs" "landed dt r" "k < length cs"
    "City.x (cs ! k) = targetX r \<and> City.y (cs ! k) = targetY r"
    "\<forall>j<k. \<not> (City.x (cs ! j) = targetX r \<and> City.y (cs ! j) = targetY r)"
  shows "destroyed (fold (impactOn dt) rs cs ! k)"
  using assms
proof (induction rs arbitrary: cs)
  case Nil
  then show ?case by simp
next
  case (Cons a rs)
  have l: "k < length (impactOn dt a cs)"
    using Cons.prems by (simp add: impactOn_def)
  have pos: "\<And>j. j \<le> k \<Longrightarrow> City.x (impactOn dt a cs ! j) = City.x (cs ! j)
      \<and> City.y (impactOn dt a cs ! j) = City.y (cs ! j)"
  proof -
    fix j assume "j \<le> k"
    then have "j < length cs" using Cons.prems(3) by simp
    from hitTarget_nth [OF this] show "City.x (impactOn dt a cs ! j) = City.x (cs ! j)
      \<and> City.y (impactOn dt a cs ! j) = City.y (cs ! j)"
      by (simp add: impactOn_def)
  qed
  show ?case
  proof (cases "a = r")
    case True
    have "destroyed (impactOn dt a cs ! k)"
      using True Cons.prems hitTarget_first [of k cs "targetX r" "targetY r"]
      by (simp add: impactOn_def)
    with impactOn_nth [OF l, of dt rs] show ?thesis by simp
  next
    case False
    with Cons.prems have "r \<in> set rs" by simp
    then have "destroyed (fold (impactOn dt) rs (impactOn dt a cs) ! k)"
      using Cons.prems pos by (intro Cons.IH [OF _ _ l]) auto
    then show ?thesis by simp
  qed
qed

lemma impactExplosions_member:
  "i < length rs \<Longrightarrow> landed dt (rs ! i) \<Longrightarrow>
     \<exists>d. impactExplosion d dt (rs ! i) \<in> set (impactExplosions dt draws n rs)"
proof (induction rs arbitrary: i n)
  case Nil
  then show ?case by simp
next
  case (Cons r rs)
  show ?case
  proof (cases i)
    case 0
    with Cons.prems show ?thesis by auto
  next
    case (Suc i')
    with Cons.prems have "i' < length rs" "landed dt (rs ! i')" by simp_all
    from Cons.IH [OF this] show ?thesis
      using Suc by (cases "landed dt r") auto
  qed
qed

lemma land_landed:
  "landed dt p \<Longrightarrow> \<not> active (land dt p)"
  "\<not> landed dt p \<Longrightarrow> active (land dt p) = active p"
  "progress (land dt p) = progress p + speed p * (dt / 16)"
  "entity.x (land dt p) = startX p + (targetX p - startX p) * progress (land dt p)"
  "entity.y (land dt p) = startY p + (targetY p - startY p) * progress (land dt p)"
  "startX (land dt p) = startX p" "startY (land dt p) = startY p"
  "targetX (land dt p) = targetX p" "targetY (land dt p) = targetY p"
  "speed (land dt p) = speed p" "entity.id (land dt p) = entity.id p"
  by (simp_all add: land_def)

lemma landed_iff: "landed dt p \<longleftrightarrow> 1 \<le> progress p + speed p * (dt / 16)"
  by (simp add: landed_def)

lemma updateRockets_new:
  "drop (length (explosionsRef s)) (explosionsRef (updateRockets dt s)) =
     impactExplosions dt (randomDraws s) (randomCalls s) (rocketsRef s)"
  by (simp add: updateRockets_fields)

lemma updateMissiles_new:
  "drop (length (explosionsRef s)) (explosionsRef (updateMissiles dt s)) =
     interceptExplosions dt (randomDraws s) (randomCalls s) (missilesRef s)"
  by (simp add: updateMissiles_fields)

subsection \<open>Collisions\<close>

lemma hit_inactive [simp]: "\<not> hit e (r\<lparr>active := False\<rparr>)"
  by (simp add: hit_def)

lemma inRange_active [simp]: "inRange e (r\<lparr>active := b\<rparr>) = inRange e r"
  by (simp add: inRange_def)

lemma sweep_eq:
  "sweep es rs = map (\<lambda>r. if destroyedBy es r then r\<lparr>active := False\<rparr> else r) rs"
proof (induction es arbitrary: rs)
  case Nil
  show ?case by (simp add: sweep_def destroyedBy_def)
next
  case (Cons e es)
  have "sweep (e # es) rs = sweep es (map (kill e) rs)"
    by (simp add: sweep_def)
  also have "\<dots> = map (\<lambda>r. if destroyedBy es (kill e r) then (kill e r)\<lparr>active := False\<rparr> else kill e r) rs"
    by (simp add: Cons.IH comp_def)
  also have "\<dots> = map (\<lambda>r. if destroyedBy (e # es) r then r\<lparr>active := False\<rparr> else r) rs"
    by (rule map_cong) (auto simp add: kill_def hit_def destroyedBy_def)
  finally show ?case .
qed












lemma destroyedBy_Cons:
  "destroyedBy (e # es) r \<longleftrightarrow> hit e r \<or> destroyedBy es (kill e r)"
  by (auto simp add: destroyedBy_def hit_def kill_def)

lemma kill_position [simp]:
  "entity.x (kill e r) = entity.x r" "entity.y (kill e r) = entity.y r"
  by (simp_all add: kill_def)

lemma length_filter_split:
  "length (filter (\<lambda>x. P x \<or> Q x) xs) = length (filter P xs) + length (filter (\<lambda>x. \<not> P x \<and> Q x) xs)"
  by (induction xs) auto

text \<open>Counting the chain explosions whose centre satisfies \<open>A\<close>.\<close>

lemma chainExplosions_count:
  "length (filter (\<lambda>c. A (entity.x c) (entity.y c)) (chainExplosions draws n e rs)) =
     length (filter (\<lambda>r. A (entity.x r) (entity.y r) \<and> hit e r) rs)"
  by (induction rs arbitrary: n) (simp_all add: chainExplosion_def)

lemma chains_count:
  "length (filter (\<lambda>c. A (entity.x c) (entity.y c)) (chains draws n es rs)) =
     length (filter (\<lambda>r. A (entity.x r) (entity.y r) \<and> destroyedBy es r) rs)"
proof (induction es arbitrary: n rs)
  case Nil
  show ?case by (simp add: destroyedBy_def)
next
  case (Cons e es)
  have "length (filter (\<lambda>r. A (entity.x r) (entity.y r) \<and> destroyedBy (e # es) r) rs) =
      length (filter (\<lambda>r. (A (entity.x r) (entity.y r) \<and> hit e r)
          \<or> (A (entity.x r) (entity.y r) \<and> destroyedBy es (kill e r))) rs)"
    by (rule arg_cong [where f = length], rule filter_cong) (auto simp add: destroyedBy_Cons)
  also have "\<dots> = length (filter (\<lambda>r. A (entity.x r) (entity.y r) \<and> hit e r) rs)
      + length (filter (\<lambda>r. \<not> (A (entity.x r) (entity.y r) \<and> hit e r)
          \<and> (A (entity.x r) (entity.y r) \<and> destroyedBy es (kill e r))) rs)"
    by (rule length_filter_split)
  also have "(filter (\<lambda>r. \<not> (A (entity.x r) (entity.y r) \<and> hit e r)
          \<and> (A (entity.x r) (entity.y r) \<and> destroyedBy es (kill e r))) rs)
      = filter (\<lambda>r. A (entity.x r) (entity.y r) \<and> destroyedBy es (kill e r)) rs"
    by (rule filter_cong) (auto simp add: kill_def destroyedBy_def)
  finally show ?case
    by (simp add: chainExplosions_count Cons.IH filter_map comp_def)
qed

lemma kills_count: "kills es rs = length (filter (destroyedBy es) rs)"
proof (induction es arbitrary: rs)
  case Nil
  show ?case by (simp add: destroyedBy_def)
next
  case (Cons e es)
  have "length (filter (destroyedBy (e # es)) rs) =
      length (filter (\<lambda>r. hit e r \<or> destroyedBy es (kill e r)) rs)"
    by (rule arg_cong [where f = length], rule filter_cong) (simp_all add: destroyedBy_Cons)
  also have "\<dots> = length (filter (hit e) rs)
      + length (filter (\<lambda>r. \<not> hit e r \<and> destroyedBy es (kill e r)) rs)"
    by (rule length_filter_split)
  also have "filter (\<lambda>r. \<not> hit e r \<and> destroyedBy es (kill e r)) rs
      = filter (\<lambda>r. destroyedBy es (kill e r)) rs"
    by (rule filter_cong) (auto simp add: kill_def destroyedBy_def)
  finally show ?case
    by (simp add: Cons.IH filter_map comp_def)
qed

lemma destroyedBy_pulsed:
  "destroyedBy (map (pulse dt) es) r \<longleftrightarrow> active r \<and> (\<exists>e\<in>set es. inRange (pulse dt e) r)"
  by (auto simp add: destroyedBy_def)

lemma destroyedBy_pulsed_fun:
  "destroyedBy (map (pulse dt) es) = (\<lambda>r. active r \<and> (\<exists>e\<in>set es. inRange (pulse dt e) r))"
  by (rule ext) (rule destroyedBy_pulsed)

lemma updateExplosions_new:
  "drop (length (explosionsRef s)) (explosionsRef (updateExplosions dt s)) =
     chains (randomDraws s) (randomCalls s) (map (pulse dt) (explosionsRef s)) (rocketsRef s)"
  "take (length (explosionsRef s)) (explosionsRef (updateExplosions dt s)) =
     map (pulse dt) (explosionsRef s)"
  by (simp_all add: updateExplosions_fields)

lemma pulse_reaching_active:
  assumes "active e" "inRange (pulse dt e) r"
  shows "active (pulse dt e)"
proof (cases "growing e")
  case True
  then show ?thesis using assms(1) by (simp add: pulse_growing)
next
  case False
  from assms(2) have "0 < radius (pulse dt e)" by (simp add: inRange_iff)
  then show ?thesis using assms(1) pulse_shrinking(3) [OF False, of dt] by simp
qed

section \<open>The concrete sessions, evaluated\<close>

lemma started_fields:
  "isWaveTransitionRef started = False" "spawnTimerRef started = 0" "waveRef started = 1"
  "difficultyRef started = NORMAL" "rocketsSpawnedInWaveRef started = 0"
  "totalRocketsInWaveRef started = 15" "lastTimeRef started = 0" "missilesRef started = []"
  "randomCalls started = 0" "randomDraws started = halves" "gameStateRef started = PLAYING"
  "gameState started = PLAYING" "isWaveTransition started = False"
  "rocketsRef started = []" "explosionsRef started = []" "scoreRef started = 0"
  "waveTimeoutRef started = None"
  by (simp_all add: started_def initGame_def initialApp_def)

lemma tie_waveBlock:
  "waveBlock NORMAL 1 16 (tieState\<lparr>lastTimeRef := 16\<rparr>) = tieState\<lparr>lastTimeRef := 16, spawnTimerRef := 16\<rparr>"
  by (simp add: waveBlock_def spawnStep_def spawnInterval_def waveCompletionCheck_def tieState_def
        started_fields Let_def)

lemma tie_turrets: "list_all destroyed (turretsRef (loop NORMAL 1 16 tieState))"
proof -
  have l: "lastTimeRef tieState = 0" by (simp add: tieState_def started_fields)
  show ?thesis
    unfolding loop_turrets l
    by (simp add: tie_waveBlock) (simp add: tieState_def impactOn_def landed_def hitTarget_def)
qed

lemma tie_score: "scoreRef (loop NORMAL 1 16 tieState) = 5000"
proof -
  have l: "lastTimeRef tieState = 0" by (simp add: tieState_def started_fields)
  have s0: "scoreRef tieState = 4980" by (simp add: tieState_def)
  have r: "map (land 16) (rocketsRef tieState) =
     [\<lparr>entity.id = 1/4, x = 400, y = 570, active = False, startX = 400, startY = 0,
          targetX = 400, targetY = 570, speed = 1/512, progress = 1\<rparr>,
         \<lparr>entity.id = 1/8, x = 135, y = 580 * (129/512), active = True, startX = 135, startY = 0,
          targetX = 135, targetY = 580, speed = 1/512, progress = 129/512\<rparr>]"
    by (simp add: tieState_def land_def landed_def)
  have e: "map (pulse 16) (explosionsRef (updateMissiles 16 (updateRockets 16 (tieState\<lparr>lastTimeRef := 16, spawnTimerRef := 16\<rparr>))))
     = [\<lparr>entity.id = 3/4, x = 135, y = 150, active = True, radius = 12, maxRadius = 50, growing = True\<rparr>,
        \<lparr>entity.id = 1/2, x = 400, y = 570, active = True, radius = 2, maxRadius = 30, growing = True\<rparr>]"
    unfolding update_explosions_before
    by (simp add: tieState_def started_fields landed_def impactExplosion_def pulse_def Rep_halves)
  show ?thesis
    unfolding loop_score update_score l
    by (simp add: tie_waveBlock) (simp add: r e s0 hit_def kill_def inRange_iff POINTS_PER_KILL_def)
qed

lemma waveDone_fields:
  "isWaveTransitionRef waveDone = False" "spawnTimerRef waveDone = 0" "waveRef waveDone = 1"
  "difficultyRef waveDone = NORMAL" "rocketsSpawnedInWaveRef waveDone = 15"
  "totalRocketsInWaveRef waveDone = 15" "lastTimeRef waveDone = 20000" "missilesRef waveDone = []"
  "gameStateRef waveDone = PLAYING" "gameState waveDone = PLAYING"
  "rocketsRef waveDone = []" "explosionsRef waveDone = []" "scoreRef waveDone = 300"
  "waveTimeoutRef waveDone = None"
  "turretsRef waveDone =
        [\<lparr>City.id = 0, x = 50, y = 570, destroyed = False, ammo = 5, maxAmmo = 20\<rparr>,
         \<lparr>City.id = 1, x = 225, y = 570, destroyed = True, ammo = 20, maxAmmo = 20\<rparr>,
         \<lparr>City.id = 2, x = 400, y = 570, destroyed = False, ammo = 40, maxAmmo = 40\<rparr>,
         \<lparr>City.id = 3, x = 575, y = 570, destroyed = False, ammo = 20, maxAmmo = 20\<rparr>,
         \<lparr>City.id = 4, x = 750, y = 570, destroyed = False, ammo = 20, maxAmmo = 20\<rparr>]"
  "citiesRef waveDone =
        [\<lparr>City.id = 0, x = 135, y = 580, destroyed = False\<rparr>,
         \<lparr>City.id = 1, x = 310, y = 580, destroyed = False\<rparr>,
         \<lparr>City.id = 2, x = 490, y = 580, destroyed = False\<rparr>,
         \<lparr>City.id = 3, x = 665, y = 580, destroyed = False\<rparr>]"
  by (simp_all add: waveDone_def started_fields)
    (simp_all add: started_def initGame_def CITY_POSITIONS_def GAME_HEIGHT_def)

lemma waiting_fields:
  "gameStateRef waiting = PLAYING" "waveRef waiting = 1" "totalRocketsInWaveRef waiting = 15"
  "scoreRef waiting = 300" "turretsRef waiting = turretsRef waveDone"
  "citiesRef waiting = citiesRef waveDone" "waveTimeoutRef waiting = Some (Timeout 2000 NORMAL)"
  "isWaveTransitionRef waiting"
  "gameStateRef lostWaiting = LOST" "waveTimeoutRef lostWaiting = Some (Timeout 2000 NORMAL)"
  by (simp_all add: waiting_def lostWaiting_def waveDone_fields)

lemma waveDone_spawnStep:
  "spawnStep NORMAL 1 16 (waveDone\<lparr>lastTimeRef := 20016\<rparr>) =
     waveDone\<lparr>lastTimeRef := 20016, spawnTimerRef := 16\<rparr>"
  by (simp add: spawnStep_def spawnInterval_def waveDone_fields Let_def)

lemma started_roster:
  "turretsRef started =
        [\<lparr>City.id = 0, x = 50, y = 570, destroyed = False, ammo = 20, maxAmmo = 20\<rparr>,
         \<lparr>City.id = 1, x = 225, y = 570, destroyed = False, ammo = 20, maxAmmo = 20\<rparr>,
         \<lparr>City.id = 2, x = 400, y = 570, destroyed = False, ammo = 40, maxAmmo = 40\<rparr>,
         \<lparr>City.id = 3, x = 575, y = 570, destroyed = False, ammo = 20, maxAmmo = 20\<rparr>,
         \<lparr>City.id = 4, x = 750, y = 570, destroyed = False, ammo = 20, maxAmmo = 20\<rparr>]"
  "citiesRef started =
        [\<lparr>City.id = 0, x = 135, y = 580, destroyed = False\<rparr>,
         \<lparr>City.id = 1, x = 310, y = 580, destroyed = False\<rparr>,
         \<lparr>City.id = 2, x = 490, y = 580, destroyed = False\<rparr>,
         \<lparr>City.id = 3, x = 665, y = 580, destroyed = False\<rparr>]"
  by (simp_all add: started_def initGame_def TURRET_CONFIGS_def CITY_POSITIONS_def GAME_HEIGHT_def)

lemma spawnDue_rocket:
  "rocketsRef (spawnRocket NORMAL 1 (spawnDue\<lparr>lastTimeRef := 1406, spawnTimerRef := 1406\<rparr>)) =
     [\<lparr>entity.id = 1/2, x = 400, y = 0, active = True, startX = 400, startY = 0,
       targetX = 50, targetY = 570, speed = 0.00165, progress = 0\<rparr>]"
  by (simp add: spawnRocket_def Let_def Math_random_def spawnDue_def started_fields started_roster
        Rep_halves City.truncate_def GAME_WIDTH_def)

lemma spawnDue_waveBlock:
  "rocketsRef (waveBlock NORMAL 1 16 (spawnDue\<lparr>lastTimeRef := 1406\<rparr>)) =
     [\<lparr>entity.id = 1/2, x = 400, y = 0, active = True, startX = 400, startY = 0,
       targetX = 50, targetY = 570, speed = 0.00165, progress = 0\<rparr>]"
  "rocketsSpawnedInWaveRef (waveBlock NORMAL 1 16 (spawnDue\<lparr>lastTimeRef := 1406\<rparr>)) = 1"
proof -
  have f: "spawnTimerRef spawnDue = 1390" "waveRef spawnDue = 1" "difficultyRef spawnDue = NORMAL"
    "rocketsSpawnedInWaveRef spawnDue = 0" "totalRocketsInWaveRef spawnDue = 15"
    "\<not> isWaveTransitionRef spawnDue"
    by (simp_all add: spawnDue_def started_fields)
  have u: "spawnDue\<lparr>lastTimeRef := 1406, spawnTimerRef := 1390 + 16\<rparr>
         = spawnDue\<lparr>lastTimeRef := 1406, spawnTimerRef := 1406\<rparr>" by simp
  have st: "spawnStep NORMAL 1 16 (spawnDue\<lparr>lastTimeRef := 1406\<rparr>) =
      (spawnRocket NORMAL 1 (spawnDue\<lparr>lastTimeRef := 1406, spawnTimerRef := 1406\<rparr>))
        \<lparr>rocketsSpawnedInWaveRef := 1, spawnTimerRef := 0\<rparr>"
    by (simp add: spawnStep_def spawnInterval_def Let_def f spawnRocket_passive)
  show "rocketsRef (waveBlock NORMAL 1 16 (spawnDue\<lparr>lastTimeRef := 1406\<rparr>)) =
     [\<lparr>entity.id = 1/2, x = 400, y = 0, active = True, startX = 400, startY = 0,
       targetX = 50, targetY = 570, speed = 0.00165, progress = 0\<rparr>]"
    by (simp add: waveBlock_def f waveCompletionCheck_passive st spawnDue_rocket)
  show "rocketsSpawnedInWaveRef (waveBlock NORMAL 1 16 (spawnDue\<lparr>lastTimeRef := 1406\<rparr>)) = 1"
    by (simp add: waveBlock_def f waveCompletionCheck_passive st)
qed

lemma started_closest:
  "closestTurret 50 (turretsRef started) = Some 0"
  "closestTurret (275/2) (turretsRef started) = Some 0"
  by (simp_all add: closestTurret_def started_roster considerTurret_def Let_def)

lemma fading_fields:
  "lastTimeRef fading = 0"
  "explosionsRef fading =
        [\<lparr>entity.id = 1/4, x = 300, y = 200, active = True, radius = 49, maxRadius = 50,
          growing = True\<rparr>,
         \<lparr>entity.id = 3/4, x = 500, y = 250, active = True, radius = 1/2, maxRadius = 40,
          growing = False\<rparr>]"
  by (simp_all add: fading_def started_fields)

lemma fading_waveBlock:
  "waveBlock NORMAL 1 16 (fading\<lparr>lastTimeRef := 16\<rparr>) = fading\<lparr>lastTimeRef := 16, spawnTimerRef := 16\<rparr>"
  by (simp add: waveBlock_def spawnStep_def spawnInterval_def waveCompletionCheck_def fading_def
        started_fields Let_def)

lemma fading_update:
  "explosionsRef (update NORMAL 1 16 (fading\<lparr>lastTimeRef := 16\<rparr>)) =
     [\<lparr>entity.id = 1/4, x = 300, y = 200, active = True, radius = 51, maxRadius = 50,
       growing = False\<rparr>,
      \<lparr>entity.id = 3/4, x = 500, y = 250, active = False, radius = - (1/2), maxRadius = 40,
       growing = False\<rparr>]"
proof -
  have r: "rocketsRef (fading\<lparr>lastTimeRef := 16, spawnTimerRef := 16\<rparr>) = []"
    and m: "missilesRef (fading\<lparr>lastTimeRef := 16, spawnTimerRef := 16\<rparr>) = []"
    by (simp_all add: fading_def started_fields)
  show ?thesis
    unfolding update_explosions fading_waveBlock update_explosions_before
    by (simp add: r m chains_no_rockets) (simp add: fading_fields pulse_def)
qed

lemma tie_fields:
  "rocketsRef tieState =
        [\<lparr>entity.id = 1/4, x = 400, y = 570 * (511/512), active = True, startX = 400, startY = 0,
          targetX = 400, targetY = 570, speed = 1/512, progress = 511/512\<rparr>,
         \<lparr>entity.id = 1/8, x = 135, y = 145, active = True, startX = 135, startY = 0,
          targetX = 135, targetY = 580, speed = 1/512, progress = 1/4\<rparr>]"
  "turretsRef tieState =
        [\<lparr>City.id = 0, x = 50, y = 570, destroyed = True, ammo = 20, maxAmmo = 20\<rparr>,
         \<lparr>City.id = 1, x = 225, y = 570, destroyed = True, ammo = 20, maxAmmo = 20\<rparr>,
         \<lparr>City.id = 2, x = 400, y = 570, destroyed = False, ammo = 40, maxAmmo = 40\<rparr>,
         \<lparr>City.id = 3, x = 575, y = 570, destroyed = True, ammo = 20, maxAmmo = 20\<rparr>,
         \<lparr>City.id = 4, x = 750, y = 570, destroyed = True, ammo = 20, maxAmmo = 20\<rparr>]"
  "explosionsRef tieState =
        [\<lparr>entity.id = 3/4, x = 135, y = 150, active = True, radius = 10, maxRadius = 50,
          growing = True\<rparr>]"
  "missilesRef tieState = []" "scoreRef tieState = 4980" "lastTimeRef tieState = 0"
  "randomCalls tieState = 0" "randomDraws tieState = halves"
  by (simp_all add: tieState_def started_fields)





lemma tie_pulsed:
  "pulse 16 (explosionsRef tieState ! 0) =
     \<lparr>entity.id = 3/4, x = 135, y = 150, active = True, radius = 12, maxRadius = 50, growing = True\<rparr>"
  by (simp add: tie_fields pulse_def)

section \<open>The claims\<close>

subsection \<open>C1: score threshold and last turret in the same frame\<close>

text \<open>
  C1, as amended. When the score at the end of a frame has reached \<open>WIN_SCORE\<close>, the frame
  ends in LOST if every turret is destroyed at that moment and in WON otherwise: the check of
  the turrets runs after the check of the score and overwrites its result.
\<close>

theorem frame_end_state:
  assumes "scoreRef (loop cD cW time s) \<ge> WIN_SCORE"
  shows "gameStateRef (loop cD cW time s) =
           (if list_all destroyed (turretsRef (loop cD cW time s)) then LOST else WON)
       \<and> gameState (loop cD cW time s) =
           (if list_all destroyed (turretsRef (loop cD cW time s)) then LOST else WON)"
  using assms by (simp add: loop_state)

text \<open>
  The claim as the specification states it fails on \<open>tieState\<close>: the frame of 16 ms brings
  the score to 5000 and destroys the last turret, and the session is not WON.
\<close>

theorem tie_frame_not_won:
  "scoreRef (loop NORMAL 1 16 tieState) \<ge> WIN_SCORE
   \<and> list_all destroyed (turretsRef (loop NORMAL 1 16 tieState))
   \<and> gameStateRef (loop NORMAL 1 16 tieState) \<noteq> WON"
  using tie_turrets by (simp add: loop_state tie_score WIN_SCORE_def)

theorem frame_end_state_witness:
  "scoreRef (loop NORMAL 1 16 tieState) \<ge> WIN_SCORE
   \<and> gameStateRef (loop NORMAL 1 16 tieState) = LOST
   \<and> gameState (loop NORMAL 1 16 tieState) = LOST"
proof -
  have h: "scoreRef (loop NORMAL 1 16 tieState) \<ge> WIN_SCORE"
    by (simp add: tie_score WIN_SCORE_def)
  show ?thesis
    using h frame_end_state [OF h] tie_turrets by simp
qed

subsection \<open>C2: entering the wave transition\<close>

text \<open>
  C2, as amended. In the frame in which the quota is met and no rocket is left after the
  spawning step, the transition flag is set and the timer of 2000 ms is armed; that frame
  changes neither the score nor any turret. While the flag is set, later frames leave the
  flag and the timer as they are, so the transition is entered once. The bonuses are
  awarded by the callback of the timer, when it finds the game state PLAYING: the score
  grows by \<open>ammo * AMMO_BONUS\<close> for every turret that is not destroyed and by \<open>CITY_BONUS\<close>
  for every city that is not destroyed, and every turret that is not destroyed is refilled
  to \<open>maxAmmo\<close>. The callback drops the handle, so it runs once per transition.
\<close>

theorem wave_completion:
  "(\<not> isWaveTransitionRef s
     \<and> totalRocketsInWaveRef s \<le>
           rocketsSpawnedInWaveRef (spawnStep cD cW (time - lastTimeRef s) (s\<lparr>lastTimeRef := time\<rparr>))
     \<and> rocketsRef (spawnStep cD cW (time - lastTimeRef s) (s\<lparr>lastTimeRef := time\<rparr>)) = [] \<longrightarrow>
       isWaveTransitionRef (loop cD cW time s) \<and> isWaveTransition (loop cD cW time s)
     \<and> waveTimeoutRef (loop cD cW time s) = Some (Timeout 2000 cD)
     \<and> scoreRef (loop cD cW time s) = scoreRef s
     \<and> turretsRef (loop cD cW time s) = turretsRef s)
   \<and> (isWaveTransitionRef s \<longrightarrow>
       isWaveTransitionRef (loop cD cW time s) \<and> waveTimeoutRef (loop cD cW time s) = waveTimeoutRef s)
   \<and> (gameStateRef s = PLAYING \<longrightarrow>
       scoreRef (waveTimeoutCallback cD s) =
         scoreRef s + sum_list (map ammoBonus (turretsRef s))
           + CITY_BONUS * real (length (filter standing (citiesRef s)))
     \<and> turretsRef (waveTimeoutCallback cD s) = map refilled (turretsRef s)
     \<and> waveTimeoutRef (waveTimeoutCallback cD s) = None
     \<and> timeoutFires (waveTimeoutCallback cD s) = waveTimeoutCallback cD s)"
  by (simp add: loop_entry loop_in_transition waveTimeoutCallback_fields startNextWave_fields
        timeoutFires_def)

text \<open>
  The claim as the specification states it fails on \<open>waveDone\<close>: the frame that enters the
  transition leaves the score at 300 and the first turret, which stands, at 5 of 20.
\<close>

theorem wave_completion_no_bonus_at_entry:
  "\<not> isWaveTransitionRef waveDone
   \<and> isWaveTransitionRef (loop NORMAL 1 20016 waveDone)
   \<and> scoreRef (loop NORMAL 1 20016 waveDone) = scoreRef waveDone
   \<and> \<not> destroyed (turretsRef (loop NORMAL 1 20016 waveDone) ! 0)
   \<and> ammo (turretsRef (loop NORMAL 1 20016 waveDone) ! 0) = 5
   \<and> maxAmmo (turretsRef (loop NORMAL 1 20016 waveDone) ! 0) = 20"
proof -
  have a: "\<not> isWaveTransitionRef waveDone" by (simp add: waveDone_fields)
  have b: "totalRocketsInWaveRef waveDone \<le>
           rocketsSpawnedInWaveRef (spawnStep NORMAL 1 (20016 - lastTimeRef waveDone) (waveDone\<lparr>lastTimeRef := 20016\<rparr>))"
    by (simp add: waveDone_fields waveDone_spawnStep)
  have c: "rocketsRef (spawnStep NORMAL 1 (20016 - lastTimeRef waveDone) (waveDone\<lparr>lastTimeRef := 20016\<rparr>)) = []"
    by (simp add: waveDone_fields waveDone_spawnStep)
  note e = loop_entry [OF a b c]
  show ?thesis
    by (simp add: e waveDone_fields)
qed

theorem wave_completion_witness:
  "\<not> isWaveTransitionRef waveDone
   \<and> totalRocketsInWaveRef waveDone \<le>
        rocketsSpawnedInWaveRef (spawnStep NORMAL 1 (20016 - lastTimeRef waveDone) (waveDone\<lparr>lastTimeRef := 20016\<rparr>))
   \<and> rocketsRef (spawnStep NORMAL 1 (20016 - lastTimeRef waveDone) (waveDone\<lparr>lastTimeRef := 20016\<rparr>)) = []
   \<and> isWaveTransitionRef (loop NORMAL 1 20016 waveDone)
   \<and> waveTimeoutRef (loop NORMAL 1 20016 waveDone) = Some (Timeout 2000 NORMAL)
   \<and> scoreRef (loop NORMAL 1 20016 waveDone) = 300
   \<and> isWaveTransitionRef waiting
   \<and> waveTimeoutRef (loop NORMAL 1 20032 waiting) = Some (Timeout 2000 NORMAL)
   \<and> gameStateRef waiting = PLAYING
   \<and> scoreRef (waveTimeoutCallback NORMAL waiting) = 300 + (5 + 40 + 20 + 20) * 2 + 4 * 100
   \<and> map ammo (turretsRef (waveTimeoutCallback NORMAL waiting)) = [20, 20, 40, 20, 20]"
  using wave_completion [of waveDone NORMAL 1 20016] wave_completion [of waiting NORMAL 1 20032]
  by (simp add: waveDone_fields waiting_fields waveDone_spawnStep ammoBonus_def refilled_def
        standing_def AMMO_BONUS_def CITY_BONUS_def)

subsection \<open>C6: the wave timer\<close>

text \<open>
  C6. Completing a wave arms a timer of 2000 ms. When the host runs its callback, the wave
  advances only if \<open>gameStateRef\<close> is PLAYING at that moment: the wave number goes up by 1,
  the count of spawned rockets is reset to 0, the quota grows by 5, 8 or 12 for EASY, NORMAL
  or HARD, and the transition flag is cleared. With any other game state the callback
  leaves the session as it is and only drops its own handle.
\<close>

theorem wave_timer_guard:
  "(totalRocketsInWaveRef s \<le> rocketsSpawnedInWaveRef s \<and> rocketsRef s = [] \<longrightarrow>
      waveTimeoutRef (waveCompletionCheck cD s) = Some (Timeout 2000 cD))
   \<and> (waveTimeoutRef s = Some (Timeout ms cD) \<longrightarrow> timeoutFires s = waveTimeoutCallback cD s)
   \<and> (gameStateRef s \<noteq> PLAYING \<longrightarrow> waveTimeoutCallback cD s = s\<lparr>waveTimeoutRef := None\<rparr>)
   \<and> (gameStateRef s = PLAYING \<longrightarrow>
        waveRef (waveTimeoutCallback cD s) = waveRef s + 1
      \<and> wave (waveTimeoutCallback cD s) = waveRef s + 1
      \<and> rocketsSpawnedInWaveRef (waveTimeoutCallback cD s) = 0
      \<and> totalRocketsInWaveRef (waveTimeoutCallback cD s) =
          totalRocketsInWaveRef s + (if cD = EASY then 5 else if cD = NORMAL then 8 else 12)
      \<and> \<not> isWaveTransitionRef (waveTimeoutCallback cD s)
      \<and> \<not> isWaveTransition (waveTimeoutCallback cD s)
      \<and> waveTimeoutRef (waveTimeoutCallback cD s) = None)"
  by (simp add: waveTimeoutCallback_fields startNextWave_fields waveCompletionCheck_def
        timeoutFires_def)

theorem wave_timer_guard_witness:
  "totalRocketsInWaveRef waveDone \<le> rocketsSpawnedInWaveRef waveDone \<and> rocketsRef waveDone = []
   \<and> waveTimeoutRef (waveCompletionCheck NORMAL waveDone) = Some (Timeout 2000 NORMAL)
   \<and> waveTimeoutRef lostWaiting = Some (Timeout 2000 NORMAL)
   \<and> gameStateRef lostWaiting \<noteq> PLAYING
   \<and> timeoutFires lostWaiting = lostWaiting\<lparr>waveTimeoutRef := None\<rparr>
   \<and> gameStateRef waiting = PLAYING
   \<and> waveRef (waveTimeoutCallback NORMAL waiting) = 2
   \<and> rocketsSpawnedInWaveRef (waveTimeoutCallback NORMAL waiting) = 0
   \<and> totalRocketsInWaveRef (waveTimeoutCallback NORMAL waiting) = 23
   \<and> \<not> isWaveTransitionRef (waveTimeoutCallback NORMAL waiting)"
  using wave_timer_guard [of waveDone NORMAL 2000] wave_timer_guard [of lostWaiting NORMAL 2000]
    wave_timer_guard [of waiting NORMAL 2000]
  by (simp add: waveDone_fields waiting_fields)

subsection \<open>C9: when a rocket is spawned\<close>

text \<open>
  C9. The block of the frame callback that spawns (and with it the whole frame) adds a rocket,
  or counts one as spawned, only outside the wave transition, only when the time accumulated
  since the last spawn, this frame included, exceeds
  \<open>max 400 ((1500 - wave * 100) * f)\<close> with \<open>f\<close> = 1.2, 1 or 0.8 for EASY, NORMAL or HARD, and
  only while the rockets spawned in this wave are fewer than its quota.
\<close>

theorem spawn_guard:
  "(rocketsRef (waveBlock cD cW dt s) \<noteq> rocketsRef s \<longrightarrow>
      \<not> isWaveTransitionRef s
    \<and> spawnTimerRef s + dt >
        max 400 ((1500 - waveRef s * 100) *
          (case difficultyRef s of EASY \<Rightarrow> 1.2 | NORMAL \<Rightarrow> 1 | HARD \<Rightarrow> 0.8))
    \<and> rocketsSpawnedInWaveRef s < totalRocketsInWaveRef s)
   \<and> (rocketsSpawnedInWaveRef (loop cD cW time s) \<noteq> rocketsSpawnedInWaveRef s \<longrightarrow>
      \<not> isWaveTransitionRef s
    \<and> spawnTimerRef s + (time - lastTimeRef s) >
        max 400 ((1500 - waveRef s * 100) *
          (case difficultyRef s of EASY \<Rightarrow> 1.2 | NORMAL \<Rightarrow> 1 | HARD \<Rightarrow> 0.8))
    \<and> rocketsSpawnedInWaveRef s < totalRocketsInWaveRef s)"
proof -
  have "spawnInterval (s\<lparr>lastTimeRef := time\<rparr>) = spawnInterval s"
    by (simp add: spawnInterval_def)
  with waveBlock_rockets [of cD cW dt s]
    waveBlock_rockets [of cD cW "time - lastTimeRef s" "s\<lparr>lastTimeRef := time\<rparr>"]
  show ?thesis
    by (auto simp add: loop_wave_fields spawnInterval_eq)
qed

theorem spawn_guard_witness:
  "rocketsRef (waveBlock NORMAL 1 16 (spawnDue\<lparr>lastTimeRef := 1406\<rparr>))
     \<noteq> rocketsRef (spawnDue\<lparr>lastTimeRef := 1406\<rparr>)
   \<and> rocketsSpawnedInWaveRef (loop NORMAL 1 1406 spawnDue) \<noteq> rocketsSpawnedInWaveRef spawnDue
   \<and> spawnTimerRef spawnDue + (1406 - lastTimeRef spawnDue) > 1400
   \<and> rocketsSpawnedInWaveRef spawnDue < totalRocketsInWaveRef spawnDue
   \<and> \<not> isWaveTransitionRef spawnDue"
proof -
  have f: "spawnTimerRef spawnDue = 1390" "waveRef spawnDue = 1" "difficultyRef spawnDue = NORMAL"
    "rocketsSpawnedInWaveRef spawnDue = 0" "totalRocketsInWaveRef spawnDue = 15"
    "\<not> isWaveTransitionRef spawnDue" "lastTimeRef spawnDue = 1390" "rocketsRef spawnDue = []"
    by (simp_all add: spawnDue_def started_fields)
  have a: "rocketsRef (waveBlock NORMAL 1 16 (spawnDue\<lparr>lastTimeRef := 1406\<rparr>))
     \<noteq> rocketsRef (spawnDue\<lparr>lastTimeRef := 1406\<rparr>)"
    by (simp add: spawnDue_waveBlock f)
  have b: "rocketsSpawnedInWaveRef (loop NORMAL 1 1406 spawnDue) \<noteq> rocketsSpawnedInWaveRef spawnDue"
    by (simp add: loop_wave_fields f spawnDue_waveBlock)
  show ?thesis
    using a b spawn_guard [of NORMAL 1 16 "spawnDue\<lparr>lastTimeRef := 1406\<rparr>" 1406]
      spawn_guard [of NORMAL 1 16 spawnDue 1406]
    by (simp add: f)
qed

subsection \<open>C7: the fire command\<close>

text \<open>
  C7. \<open>fireMissile\<close> returns the session unchanged unless the game state is PLAYING, the
  wave transition flag is clear and some turret is not destroyed and has ammo above 0. When
  these hold, there is a turret \<open>b\<close> among those, at the least horizontal distance from the
  target x, whose ammo goes down by 1 while the other turrets stay as they are, and one
  missile is appended that starts at the position of \<open>b\<close>, with progress 0, and is aimed at
  the target.
\<close>

theorem fire_command:
  "(gameState s \<noteq> PLAYING \<or> isWaveTransition s
      \<or> (\<forall>t\<in>set (turretsRef s). destroyed t \<or> ammo t \<le> 0) \<longrightarrow> fireMissile tX tY s = s)
   \<and> (gameState s = PLAYING \<and> \<not> isWaveTransition s
      \<and> (\<exists>t\<in>set (turretsRef s). \<not> destroyed t \<and> 0 < ammo t) \<longrightarrow>
      (\<exists>b<length (turretsRef s).
          \<not> destroyed (turretsRef s ! b) \<and> 0 < ammo (turretsRef s ! b)
        \<and> (\<forall>j<length (turretsRef s). \<not> destroyed (turretsRef s ! j) \<and> 0 < ammo (turretsRef s ! j) \<longrightarrow>
              \<bar>City.x (turretsRef s ! b) - tX\<bar> \<le> \<bar>City.x (turretsRef s ! j) - tX\<bar>)
        \<and> turretsRef (fireMissile tX tY s) =
            (turretsRef s)[b := (turretsRef s ! b)\<lparr>ammo := ammo (turretsRef s ! b) - 1\<rparr>]
        \<and> missilesRef (fireMissile tX tY s) = missilesRef s @
            [\<lparr>entity.id = Rep_draw (randomDraws s (randomCalls s)),
              x = City.x (turretsRef s ! b), y = City.y (turretsRef s ! b), active = True,
              startX = City.x (turretsRef s ! b), startY = City.y (turretsRef s ! b),
              targetX = tX, targetY = tY, speed = 0.04, progress = 0\<rparr>]))"
proof (intro conjI impI)
  assume "gameState s \<noteq> PLAYING \<or> isWaveTransition s
      \<or> (\<forall>t\<in>set (turretsRef s). destroyed t \<or> ammo t \<le> 0)"
  then have "gameState s \<noteq> PLAYING \<or> isWaveTransition s \<or> closestTurret tX (turretsRef s) = None"
    by (auto simp add: closestTurret_None eligible_def not_less)
  then show "fireMissile tX tY s = s"
    by (rule fireMissile_noop)
next
  assume a: "gameState s = PLAYING \<and> \<not> isWaveTransition s
      \<and> (\<exists>t\<in>set (turretsRef s). \<not> destroyed t \<and> 0 < ammo t)"
  then have "closestTurret tX (turretsRef s) \<noteq> None"
    by (auto simp add: closestTurret_None eligible_def)
  then obtain b where b: "closestTurret tX (turretsRef s) = Some b" by auto
  note sel = closestTurret_Some [OF b]
  note eff = fireMissile_fields [OF _ _ b, of tY]
  show "\<exists>b<length (turretsRef s).
          \<not> destroyed (turretsRef s ! b) \<and> 0 < ammo (turretsRef s ! b)
        \<and> (\<forall>j<length (turretsRef s). \<not> destroyed (turretsRef s ! j) \<and> 0 < ammo (turretsRef s ! j) \<longrightarrow>
              \<bar>City.x (turretsRef s ! b) - tX\<bar> \<le> \<bar>City.x (turretsRef s ! j) - tX\<bar>)
        \<and> turretsRef (fireMissile tX tY s) =
            (turretsRef s)[b := (turretsRef s ! b)\<lparr>ammo := ammo (turretsRef s ! b) - 1\<rparr>]
        \<and> missilesRef (fireMissile tX tY s) = missilesRef s @
            [\<lparr>entity.id = Rep_draw (randomDraws s (randomCalls s)),
              x = City.x (turretsRef s ! b), y = City.y (turretsRef s ! b), active = True,
              startX = City.x (turretsRef s ! b), startY = City.y (turretsRef s ! b),
              targetX = tX, targetY = tY, speed = 0.04, progress = 0\<rparr>]"
    using sel a eff by (intro exI [of _ b]) (simp add: eligible_def aim_def)
qed

theorem fire_command_witness:
  "gameState (initialApp halves) \<noteq> PLAYING
   \<and> fireMissile 50 100 (initialApp halves) = initialApp halves
   \<and> gameState started = PLAYING \<and> \<not> isWaveTransition started
   \<and> \<not> destroyed (turretsRef started ! 0) \<and> 0 < ammo (turretsRef started ! 0)
   \<and> map ammo (turretsRef (fireMissile 50 100 started)) = [19, 20, 40, 20, 20]
   \<and> missilesRef (fireMissile 50 100 started) =
       [\<lparr>entity.id = 1/2, x = 50, y = 570, active = True, startX = 50, startY = 570,
         targetX = 50, targetY = 100, speed = 0.04, progress = 0\<rparr>]"
proof -
  let ?ts = "turretsRef started"
  have a: "gameState (initialApp halves) \<noteq> PLAYING" by (simp add: initialApp_def)
  have b: "gameState started = PLAYING \<and> \<not> isWaveTransition started
      \<and> (\<exists>t\<in>set ?ts. \<not> destroyed t \<and> 0 < ammo t)"
    by (simp add: started_fields started_roster)
  have noop: "fireMissile 50 100 (initialApp halves) = initialApp halves"
    using a fire_command [of "initialApp halves" 50 100] by blast
  from b fire_command [of started 50 100] obtain k where k: "k < length ?ts"
    and least: "\<forall>j<length ?ts. \<not> destroyed (?ts ! j) \<and> 0 < ammo (?ts ! j) \<longrightarrow>
              \<bar>City.x (?ts ! k) - 50\<bar> \<le> \<bar>City.x (?ts ! j) - 50\<bar>"
    and ts: "turretsRef (fireMissile 50 100 started) = ?ts[k := (?ts ! k)\<lparr>ammo := ammo (?ts ! k) - 1\<rparr>]"
    and ms: "missilesRef (fireMissile 50 100 started) = missilesRef started @
            [\<lparr>entity.id = Rep_draw (randomDraws started (randomCalls started)),
              x = City.x (?ts ! k), y = City.y (?ts ! k), active = True,
              startX = City.x (?ts ! k), startY = City.y (?ts ! k),
              targetX = 50, targetY = 100, speed = 0.04, progress = 0\<rparr>]"
    by blast
  from least [rule_format, of 0] have "City.x (?ts ! k) = 50"
    by (simp add: started_roster)
  moreover from k have "k = 0 \<or> k = 1 \<or> k = 2 \<or> k = 3 \<or> k = 4"
    by (simp add: started_roster) linarith
  ultimately have k0: "k = 0"
    by (auto simp add: started_roster)
  show ?thesis
    using a noop ts ms unfolding k0
    by (simp add: started_fields started_roster Rep_halves)
qed

subsection \<open>C10: ties between turrets\<close>

text \<open>
  C10. If turret \<open>i\<close> is eligible (not destroyed, ammo above 0), no eligible turret is
  closer to the target x, and no eligible turret before \<open>i\<close> in the roster is at the same
  distance, then the fire command selects \<open>i\<close>: among the eligible turrets at the least
  distance the first of the roster fires. The selection is a function of the roster and the
  target.
\<close>

theorem fire_tie_break:
  assumes "gameState s = PLAYING" and "\<not> isWaveTransition s"
    and "i < length (turretsRef s)"
    and "\<not> destroyed (turretsRef s ! i) \<and> 0 < ammo (turretsRef s ! i)"
    and "\<forall>j<length (turretsRef s). \<not> destroyed (turretsRef s ! j) \<and> 0 < ammo (turretsRef s ! j) \<longrightarrow>
           \<bar>City.x (turretsRef s ! i) - tX\<bar> \<le> \<bar>City.x (turretsRef s ! j) - tX\<bar>"
    and "\<forall>j<i. \<not> destroyed (turretsRef s ! j) \<and> 0 < ammo (turretsRef s ! j) \<longrightarrow>
           \<bar>City.x (turretsRef s ! j) - tX\<bar> \<noteq> \<bar>City.x (turretsRef s ! i) - tX\<bar>"
  shows "closestTurret tX (turretsRef s) = Some i
       \<and> turretsRef (fireMissile tX tY s) =
           (turretsRef s)[i := (turretsRef s ! i)\<lparr>ammo := ammo (turretsRef s ! i) - 1\<rparr>]
       \<and> startX (last (missilesRef (fireMissile tX tY s))) = City.x (turretsRef s ! i)"
proof -
  have el: "eligible (turretsRef s ! i)" using assms(4) by (simp add: eligible_def)
  then have "closestTurret tX (turretsRef s) \<noteq> None"
    using assms(3) by (auto simp add: closestTurret_None)
  then obtain b where b: "closestTurret tX (turretsRef s) = Some b" by auto
  note sel = closestTurret_Some [OF b]
  have le1: "aim tX (turretsRef s ! b) \<le> aim tX (turretsRef s ! i)"
    using sel(3) assms(3) el by simp
  have le2: "aim tX (turretsRef s ! i) \<le> aim tX (turretsRef s ! b)"
    using assms(5) sel(1,2) by (simp add: eligible_def aim_def)
  have "\<not> b < i"
    using assms(6) sel(2) le1 le2 by (auto simp add: eligible_def aim_def)
  moreover have "\<not> i < b"
    using sel(4) el le2 by fastforce
  ultimately have "b = i" by simp
  with b have c: "closestTurret tX (turretsRef s) = Some i" by simp
  show ?thesis
    using c fireMissile_fields [OF assms(1,2) c, of tY] by simp
qed

theorem fire_tie_break_witness:
  "closestTurret (275/2) (turretsRef started) = Some 0
   \<and> \<bar>City.x (turretsRef started ! 0) - 275/2\<bar> = \<bar>City.x (turretsRef started ! 1) - 275/2\<bar>
   \<and> map ammo (turretsRef (fireMissile (275/2) 100 started)) = [19, 20, 40, 20, 20]
   \<and> startX (last (missilesRef (fireMissile (275/2) 100 started))) = 50"
proof -
  have 1: "gameState started = PLAYING" and 2: "\<not> isWaveTransition started"
    by (simp_all add: started_fields)
  have 3: "0 < length (turretsRef started)" by (simp add: started_roster)
  have 4: "\<not> destroyed (turretsRef started ! 0) \<and> 0 < ammo (turretsRef started ! 0)"
    by (simp add: started_roster)
  have 5: "\<forall>j<length (turretsRef started).
      \<not> destroyed (turretsRef started ! j) \<and> 0 < ammo (turretsRef started ! j) \<longrightarrow>
           \<bar>City.x (turretsRef started ! 0) - 275/2\<bar> \<le> \<bar>City.x (turretsRef started ! j) - 275/2\<bar>"
    by (simp add: started_roster less_Suc_eq all_conj_distrib numeral_eq_Suc)
  have 6: "\<forall>j<0. \<not> destroyed (turretsRef started ! j) \<and> 0 < ammo (turretsRef started ! j) \<longrightarrow>
           \<bar>City.x (turretsRef started ! j) - 275/2\<bar> \<noteq> \<bar>City.x (turretsRef started ! 0) - 275/2\<bar>"
    by simp
  show ?thesis
    using fire_tie_break [OF 1 2 3 4 5 6, of 100]
    by (simp add: started_roster)
qed

subsection \<open>C3: the radius of an explosion\<close>

text \<open>
  C3, as amended. In a frame of positive duration \<open>dt\<close>, an explosion whose growing flag is
  set grows by \<open>2 * (dt / 16)\<close>, so strictly, and the flag is cleared as soon as the radius
  has reached \<open>maxRadius\<close>; an explosion whose flag is clear shrinks by \<open>dt / 16\<close>, so strictly,
  and becomes inactive when the radius is then at or below 0. In that frame the radius may
  be negative; the explosion is inactive then and the cleanup of the same frame removes it.
  So, if no explosion of the session has a negative radius before a frame, none has after it:
  the explosions after the frame are the old ones, updated, that are still active, followed by
  new ones, and all of them are active with a radius of at least 0.
\<close>

theorem explosion_radius:
  assumes "lastTimeRef s < time" and "dt = time - lastTimeRef s"
    and "\<forall>e\<in>set (explosionsRef s). 0 \<le> radius e"
  shows "(\<exists>new. explosionsRef (loop cD cW time s) =
              filter active (map (pulse dt) (explosionsRef s)) @ new)
       \<and> (\<forall>e\<in>set (explosionsRef (loop cD cW time s)). active e \<and> 0 \<le> radius e)
       \<and> (growing e \<longrightarrow>
             radius (pulse dt e) = radius e + 2 * (dt / 16) \<and> radius e < radius (pulse dt e)
           \<and> (growing (pulse dt e) \<longleftrightarrow> radius (pulse dt e) < maxRadius e)
           \<and> active (pulse dt e) = active e)
       \<and> (\<not> growing e \<longrightarrow>
             radius (pulse dt e) = radius e - dt / 16 \<and> radius (pulse dt e) < radius e
           \<and> \<not> growing (pulse dt e)
           \<and> (active (pulse dt e) \<longleftrightarrow> active e \<and> 0 < radius (pulse dt e)))"
proof (intro conjI)
  have dt: "0 < dt" using assms(1,2) by simp
  show "\<exists>new. explosionsRef (loop cD cW time s) =
              filter active (map (pulse dt) (explosionsRef s)) @ new"
    unfolding loop_explosions update_explosions assms(2) by simp
  show "\<forall>e\<in>set (explosionsRef (loop cD cW time s)). active e \<and> 0 \<le> radius e"
    unfolding loop_explosions
    using update_explosions_nonneg [of "time - lastTimeRef s" "s\<lparr>lastTimeRef := time\<rparr>" _ cD cW]
      assms by auto
  show "growing e \<longrightarrow>
             radius (pulse dt e) = radius e + 2 * (dt / 16) \<and> radius e < radius (pulse dt e)
           \<and> (growing (pulse dt e) \<longleftrightarrow> radius (pulse dt e) < maxRadius e)
           \<and> active (pulse dt e) = active e"
    using dt pulse_growing [of e dt] by simp
  show "\<not> growing e \<longrightarrow>
             radius (pulse dt e) = radius e - dt / 16 \<and> radius (pulse dt e) < radius e
           \<and> \<not> growing (pulse dt e)
           \<and> (active (pulse dt e) \<longleftrightarrow> active e \<and> 0 < radius (pulse dt e))"
    using dt pulse_shrinking [of e dt] by simp
qed

text \<open>
  The claim as the specification states it fails on \<open>fading\<close>: in a frame of 16 ms the second
  explosion, active at radius 1/2, has the radius -1/2 from its update until the cleanup.
\<close>

theorem fading_radius_negative:
  "active (explosionsRef fading ! 1) \<and> 0 \<le> radius (explosionsRef fading ! 1)
   \<and> radius (explosionsRef (update NORMAL 1 16 (fading\<lparr>lastTimeRef := 16\<rparr>)) ! 1) < 0"
  by (simp add: fading_update fading_fields)

theorem explosion_radius_witness:
  "lastTimeRef fading < 16
   \<and> list_all (\<lambda>e. 0 \<le> radius e) (explosionsRef fading)
   \<and> explosionsRef (loop NORMAL 1 16 fading) =
       [\<lparr>entity.id = 1/4, x = 300, y = 200, active = True, radius = 51, maxRadius = 50,
         growing = False\<rparr>]
   \<and> list_all (\<lambda>e. active e \<and> 0 \<le> radius e) (explosionsRef (loop NORMAL 1 16 fading))
   \<and> radius (pulse 16 (explosionsRef fading ! 0)) = 51
   \<and> radius (pulse 16 (explosionsRef fading ! 1)) < radius (explosionsRef fading ! 1)
   \<and> \<not> active (pulse 16 (explosionsRef fading ! 1))"
proof -
  have a: "lastTimeRef fading < 16" by (simp add: fading_fields)
  have b: "16 = 16 - lastTimeRef fading" by (simp add: fading_fields)
  have c: "\<forall>e\<in>set (explosionsRef fading). 0 \<le> radius e" by (simp add: fading_fields)
  have d: "explosionsRef (loop NORMAL 1 16 fading) =
       [\<lparr>entity.id = 1/4, x = 300, y = 200, active = True, radius = 51, maxRadius = 50,
         growing = False\<rparr>]"
    by (simp add: loop_explosions fading_fields fading_update)
  show ?thesis
    using a c d explosion_radius [OF a b c, of NORMAL 1 "explosionsRef fading ! 0"]
      explosion_radius [OF a b c, of NORMAL 1 "explosionsRef fading ! 1"]
    by (simp add: fading_fields)
qed

subsection \<open>C4: the impact of a rocket\<close>

text \<open>
  C4. When the update of the rocket loop brings rocket \<open>i\<close> to a progress of 1 or more, the
  rocket is inactive after the loop; the city and the turret stored at exactly the target
  coordinates of the rocket (the first such one of each roster) are destroyed after the loop,
  and whatever was destroyed before stays destroyed; and the loop has pushed an explosion of
  radius 0 and maximal radius 30 at the position the rocket has reached, which is its target
  when the progress is exactly 1. Every explosion pushed by the rocket loop has a smaller
  maximal radius than every explosion pushed by the missile loop.
\<close>

theorem rocket_impact:
  assumes "i < length (rocketsRef s)"
    and "1 \<le> progress (rocketsRef s ! i) + speed (rocketsRef s ! i) * (dt / 16)"
  shows "\<not> active (rocketsRef (updateRockets dt s) ! i)
    \<and> (\<forall>k<length (citiesRef s).
          City.x (citiesRef s ! k) = targetX (rocketsRef s ! i)
        \<and> City.y (citiesRef s ! k) = targetY (rocketsRef s ! i)
        \<and> (\<forall>j<k. \<not> (City.x (citiesRef s ! j) = targetX (rocketsRef s ! i)
                    \<and> City.y (citiesRef s ! j) = targetY (rocketsRef s ! i))) \<longrightarrow>
          destroyed (citiesRef (updateRockets dt s) ! k))
    \<and> (\<forall>k<length (turretsRef s).
          City.x (turretsRef s ! k) = targetX (rocketsRef s ! i)
        \<and> City.y (turretsRef s ! k) = targetY (rocketsRef s ! i)
        \<and> (\<forall>j<k. \<not> (City.x (turretsRef s ! j) = targetX (rocketsRef s ! i)
                    \<and> City.y (turretsRef s ! j) = targetY (rocketsRef s ! i))) \<longrightarrow>
          destroyed (turretsRef (updateRockets dt s) ! k))
    \<and> (\<forall>k<length (citiesRef s). destroyed (citiesRef s ! k) \<longrightarrow>
          destroyed (citiesRef (updateRockets dt s) ! k))
    \<and> (\<forall>k<length (turretsRef s). destroyed (turretsRef s ! k) \<longrightarrow>
          destroyed (turretsRef (updateRockets dt s) ! k))
    \<and> (\<exists>e\<in>set (drop (length (explosionsRef s)) (explosionsRef (updateRockets dt s))).
          entity.x e = entity.x (rocketsRef (updateRockets dt s) ! i)
        \<and> entity.y e = entity.y (rocketsRef (updateRockets dt s) ! i)
        \<and> radius e = 0 \<and> maxRadius e = 30 \<and> growing e \<and> active e)
    \<and> (progress (rocketsRef s ! i) + speed (rocketsRef s ! i) * (dt / 16) = 1 \<longrightarrow>
          entity.x (rocketsRef (updateRockets dt s) ! i) = targetX (rocketsRef s ! i)
        \<and> entity.y (rocketsRef (updateRockets dt s) ! i) = targetY (rocketsRef s ! i))
    \<and> (\<forall>e\<in>set (drop (length (explosionsRef s)) (explosionsRef (updateRockets dt s))).
        \<forall>e'\<in>set (drop (length (explosionsRef s')) (explosionsRef (updateMissiles dt' s'))).
          maxRadius e < maxRadius e')"
proof (intro conjI)
  let ?r = "rocketsRef s ! i"
  have ld: "landed dt ?r" using assms(2) by (simp add: landed_iff)
  have mem: "?r \<in> set (rocketsRef s)" using assms(1) by simp
  show "\<not> active (rocketsRef (updateRockets dt s) ! i)"
    using assms(1) ld by (simp add: updateRockets_fields land_landed)
  show "\<forall>k<length (citiesRef s).
          City.x (citiesRef s ! k) = targetX ?r \<and> City.y (citiesRef s ! k) = targetY ?r
        \<and> (\<forall>j<k. \<not> (City.x (citiesRef s ! j) = targetX ?r \<and> City.y (citiesRef s ! j) = targetY ?r)) \<longrightarrow>
          destroyed (citiesRef (updateRockets dt s) ! k)"
    unfolding updateRockets_fields using impactOn_first [OF mem ld] by blast
  show "\<forall>k<length (turretsRef s).
          City.x (turretsRef s ! k) = targetX ?r \<and> City.y (turretsRef s ! k) = targetY ?r
        \<and> (\<forall>j<k. \<not> (City.x (turretsRef s ! j) = targetX ?r \<and> City.y (turretsRef s ! j) = targetY ?r)) \<longrightarrow>
          destroyed (turretsRef (updateRockets dt s) ! k)"
    unfolding updateRockets_fields using impactOn_first [OF mem ld] by blast
  show "\<forall>k<length (citiesRef s). destroyed (citiesRef s ! k) \<longrightarrow>
          destroyed (citiesRef (updateRockets dt s) ! k)"
    unfolding updateRockets_fields using impactOn_nth by blast
  show "\<forall>k<length (turretsRef s). destroyed (turretsRef s ! k) \<longrightarrow>
          destroyed (turretsRef (updateRockets dt s) ! k)"
    unfolding updateRockets_fields using impactOn_nth by blast
  from impactExplosions_member [OF assms(1) ld]
  obtain d where "impactExplosion d dt ?r \<in> set (impactExplosions dt (randomDraws s) (randomCalls s) (rocketsRef s))"
    by blast
  then show "\<exists>e\<in>set (drop (length (explosionsRef s)) (explosionsRef (updateRockets dt s))).
          entity.x e = entity.x (rocketsRef (updateRockets dt s) ! i)
        \<and> entity.y e = entity.y (rocketsRef (updateRockets dt s) ! i)
        \<and> radius e = 0 \<and> maxRadius e = 30 \<and> growing e \<and> active e"
    unfolding updateRockets_new using assms(1)
    by (intro bexI [of _ "impactExplosion d dt ?r"])
      (simp_all add: updateRockets_fields land_landed impactExplosion_def)
  show "progress ?r + speed ?r * (dt / 16) = 1 \<longrightarrow>
          entity.x (rocketsRef (updateRockets dt s) ! i) = targetX ?r
        \<and> entity.y (rocketsRef (updateRockets dt s) ! i) = targetY ?r"
    using assms(1) by (simp add: updateRockets_fields land_landed)
  show "\<forall>e\<in>set (drop (length (explosionsRef s)) (explosionsRef (updateRockets dt s))).
        \<forall>e'\<in>set (drop (length (explosionsRef s')) (explosionsRef (updateMissiles dt' s'))).
          maxRadius e < maxRadius e'"
    unfolding updateRockets_new updateMissiles_new
    by (auto dest!: impactExplosions_new interceptExplosions_new)
qed

theorem rocket_impact_witness:
  "0 < length (rocketsRef tieState)
   \<and> 1 \<le> progress (rocketsRef tieState ! 0) + speed (rocketsRef tieState ! 0) * (16 / 16)
   \<and> \<not> active (rocketsRef (updateRockets 16 tieState) ! 0)
   \<and> \<not> destroyed (turretsRef tieState ! 2)
   \<and> destroyed (turretsRef (updateRockets 16 tieState) ! 2)
   \<and> entity.x (rocketsRef (updateRockets 16 tieState) ! 0) = 400
   \<and> entity.y (rocketsRef (updateRockets 16 tieState) ! 0) = 570"
proof -
  have a: "0 < length (rocketsRef tieState)" by (simp add: tie_fields)
  have b: "1 \<le> progress (rocketsRef tieState ! 0) + speed (rocketsRef tieState ! 0) * (16 / 16)"
    by (simp add: tie_fields)
  note t = rocket_impact [OF a b, of tieState 16]
  from t have "\<forall>k<length (turretsRef tieState).
          City.x (turretsRef tieState ! k) = targetX (rocketsRef tieState ! 0)
        \<and> City.y (turretsRef tieState ! k) = targetY (rocketsRef tieState ! 0)
        \<and> (\<forall>j<k. \<not> (City.x (turretsRef tieState ! j) = targetX (rocketsRef tieState ! 0)
                    \<and> City.y (turretsRef tieState ! j) = targetY (rocketsRef tieState ! 0))) \<longrightarrow>
          destroyed (turretsRef (updateRockets 16 tieState) ! k)"
    by blast
  from this [rule_format, of 2] have c: "destroyed (turretsRef (updateRockets 16 tieState) ! 2)"
    by (simp add: tie_fields less_Suc_eq numeral_2_eq_2)
  from t have d: "\<not> active (rocketsRef (updateRockets 16 tieState) ! 0)" by blast
  from t have "progress (rocketsRef tieState ! 0) + speed (rocketsRef tieState ! 0) * (16 / 16) = 1 \<longrightarrow>
          entity.x (rocketsRef (updateRockets 16 tieState) ! 0) = targetX (rocketsRef tieState ! 0)
        \<and> entity.y (rocketsRef (updateRockets 16 tieState) ! 0) = targetY (rocketsRef tieState ! 0)"
    by blast
  then have e: "entity.x (rocketsRef (updateRockets 16 tieState) ! 0) = 400
      \<and> entity.y (rocketsRef (updateRockets 16 tieState) ! 0) = 570"
    by (simp add: tie_fields)
  show ?thesis
    using a b c d e by (simp add: tie_fields)
qed

subsection \<open>C5: the motion of rockets and missiles\<close>



subsection \<open>C8: explosions against rockets\<close>

text \<open>
  C8. The explosion loop of a frame first updates the radius of each explosion and then
  checks it against every rocket. After the loop a rocket is inactive, and otherwise as
  before, exactly when it was active and its Euclidean distance from the centre of some
  explosion of the collection was below the updated radius of that explosion; every other
  rocket is unchanged. The score has grown by \<open>POINTS_PER_KILL\<close> times the number of these
  rockets, so each of them counts once, however many explosions reach it. An explosion that
  was active and reaches a rocket is still active after its update. The explosions
  pushed by the loop have radius 0 and maximal radius 40, less than the 50 of the explosion
  of a missile, and at every point there are as many of them as rockets were destroyed at
  that point.
\<close>

theorem explosion_hits:
  "length (rocketsRef (updateExplosions dt s)) = length (rocketsRef s)
   \<and> (\<forall>j<length (rocketsRef s).
        rocketsRef (updateExplosions dt s) ! j =
          (if active (rocketsRef s ! j)
              \<and> (\<exists>e\<in>set (explosionsRef s). inRange (pulse dt e) (rocketsRef s ! j))
           then (rocketsRef s ! j)\<lparr>active := False\<rparr> else rocketsRef s ! j))
   \<and> scoreRef (updateExplosions dt s) =
       scoreRef s + POINTS_PER_KILL * real (length (filter
          (\<lambda>r. active r \<and> (\<exists>e\<in>set (explosionsRef s). inRange (pulse dt e) r)) (rocketsRef s)))
   \<and> take (length (explosionsRef s)) (explosionsRef (updateExplosions dt s)) =
       map (pulse dt) (explosionsRef s)
   \<and> (\<forall>c\<in>set (drop (length (explosionsRef s)) (explosionsRef (updateExplosions dt s))).
        radius c = 0 \<and> maxRadius c = 40 \<and> growing c \<and> active c)
   \<and> (\<forall>a b. length (filter (\<lambda>c. entity.x c = a \<and> entity.y c = b)
          (drop (length (explosionsRef s)) (explosionsRef (updateExplosions dt s)))) =
        length (filter (\<lambda>r. entity.x r = a \<and> entity.y r = b
          \<and> active r \<and> (\<exists>e\<in>set (explosionsRef s). inRange (pulse dt e) r)) (rocketsRef s)))
   \<and> (\<forall>c\<in>set (drop (length (explosionsRef s)) (explosionsRef (updateExplosions dt s))).
      \<forall>c'\<in>set (drop (length (explosionsRef s')) (explosionsRef (updateMissiles dt' s'))).
        maxRadius c < maxRadius c')
   \<and> (\<forall>e\<in>set (explosionsRef s). \<forall>r\<in>set (rocketsRef s).
        active e \<and> inRange (pulse dt e) r \<longrightarrow> active (pulse dt e))"
proof (intro conjI)
  show "length (rocketsRef (updateExplosions dt s)) = length (rocketsRef s)"
    by (simp add: updateExplosions_fields)
  show "\<forall>j<length (rocketsRef s).
        rocketsRef (updateExplosions dt s) ! j =
          (if active (rocketsRef s ! j)
              \<and> (\<exists>e\<in>set (explosionsRef s). inRange (pulse dt e) (rocketsRef s ! j))
           then (rocketsRef s ! j)\<lparr>active := False\<rparr> else rocketsRef s ! j)"
    by (simp add: updateExplosions_fields sweep_eq destroyedBy_pulsed)
  show "scoreRef (updateExplosions dt s) =
       scoreRef s + POINTS_PER_KILL * real (length (filter
          (\<lambda>r. active r \<and> (\<exists>e\<in>set (explosionsRef s). inRange (pulse dt e) r)) (rocketsRef s)))"
    by (simp add: updateExplosions_fields kills_count destroyedBy_pulsed_fun)
  show "take (length (explosionsRef s)) (explosionsRef (updateExplosions dt s)) =
       map (pulse dt) (explosionsRef s)"
    by (rule updateExplosions_new)
  show "\<forall>c\<in>set (drop (length (explosionsRef s)) (explosionsRef (updateExplosions dt s))).
        radius c = 0 \<and> maxRadius c = 40 \<and> growing c \<and> active c"
    unfolding updateExplosions_new using chains_new by blast
  show "\<forall>a b. length (filter (\<lambda>c. entity.x c = a \<and> entity.y c = b)
          (drop (length (explosionsRef s)) (explosionsRef (updateExplosions dt s)))) =
        length (filter (\<lambda>r. entity.x r = a \<and> entity.y r = b
          \<and> active r \<and> (\<exists>e\<in>set (explosionsRef s). inRange (pulse dt e) r)) (rocketsRef s))"
    unfolding updateExplosions_new
    by (simp add: chains_count [where A = "\<lambda>u v. u = _ \<and> v = _"] destroyedBy_pulsed)
  show "\<forall>c\<in>set (drop (length (explosionsRef s)) (explosionsRef (updateExplosions dt s))).
      \<forall>c'\<in>set (drop (length (explosionsRef s')) (explosionsRef (updateMissiles dt' s'))).
        maxRadius c < maxRadius c'"
    unfolding updateExplosions_new updateMissiles_new
    by (auto dest!: chains_new interceptExplosions_new)
  show "\<forall>e\<in>set (explosionsRef s). \<forall>r\<in>set (rocketsRef s).
        active e \<and> inRange (pulse dt e) r \<longrightarrow> active (pulse dt e)"
    using pulse_reaching_active by blast
qed

theorem explosion_hits_witness:
  "1 < length (rocketsRef tieState)
   \<and> active (rocketsRef tieState ! 1)
   \<and> inRange (pulse 16 (explosionsRef tieState ! 0)) (rocketsRef tieState ! 1)
   \<and> \<not> active (rocketsRef (updateExplosions 16 tieState) ! 1)
   \<and> active (rocketsRef (updateExplosions 16 tieState) ! 0)
   \<and> scoreRef (updateExplosions 16 tieState) = scoreRef tieState + 20
   \<and> length (filter (\<lambda>c. entity.x c = 135 \<and> entity.y c = 145)
        (drop (length (explosionsRef tieState)) (explosionsRef (updateExplosions 16 tieState)))) = 1"
proof -
  note t = explosion_hits [of 16 tieState]
  have a: "1 < length (rocketsRef tieState)" and a0: "0 < length (rocketsRef tieState)"
    by (simp_all add: tie_fields)
  have e: "set (explosionsRef tieState) = {explosionsRef tieState ! 0}"
    by (simp add: tie_fields)
  have h1: "inRange (pulse 16 (explosionsRef tieState ! 0)) (rocketsRef tieState ! 1)"
    unfolding tie_pulsed by (simp add: tie_fields inRange_iff)
  have h0: "\<not> inRange (pulse 16 (explosionsRef tieState ! 0)) (rocketsRef tieState ! 0)"
    unfolding tie_pulsed by (simp add: tie_fields inRange_iff)
  have act: "active (rocketsRef tieState ! 1)" "active (rocketsRef tieState ! 0)"
    by (simp_all add: tie_fields)
  from t have "\<forall>j<length (rocketsRef tieState).
        rocketsRef (updateExplosions 16 tieState) ! j =
          (if active (rocketsRef tieState ! j)
              \<and> (\<exists>e\<in>set (explosionsRef tieState). inRange (pulse 16 e) (rocketsRef tieState ! j))
           then (rocketsRef tieState ! j)\<lparr>active := False\<rparr> else rocketsRef tieState ! j)"
    by blast
  note r = this [rule_format]
  have r1: "\<not> active (rocketsRef (updateExplosions 16 tieState) ! 1)"
    using r [OF a] h1 act by (simp add: e)
  have r0: "active (rocketsRef (updateExplosions 16 tieState) ! 0)"
    using r [OF a0] h0 act by (simp add: e)
  have rs: "rocketsRef tieState = [rocketsRef tieState ! 0, rocketsRef tieState ! 1]"
    by (simp add: tie_fields)
  have cnt: "filter (\<lambda>r. active r \<and> (\<exists>e\<in>set (explosionsRef tieState). inRange (pulse 16 e) r))
       (rocketsRef tieState) = [rocketsRef tieState ! 1]"
    unfolding e using h0 h1 act by (subst rs) simp
  from t have "scoreRef (updateExplosions 16 tieState) =
       scoreRef tieState + POINTS_PER_KILL * real (length (filter
          (\<lambda>r. active r \<and> (\<exists>e\<in>set (explosionsRef tieState). inRange (pulse 16 e) r)) (rocketsRef tieState)))"
    by blast
  then have sc: "scoreRef (updateExplosions 16 tieState) = scoreRef tieState + 20"
    by (simp add: cnt POINTS_PER_KILL_def)
  have pos: "entity.x (rocketsRef tieState ! 1) = 135 \<and> entity.y (rocketsRef tieState ! 1) = 145"
    "\<not> (entity.x (rocketsRef tieState ! 0) = 135 \<and> entity.y (rocketsRef tieState ! 0) = 145)"
    by (simp_all add: tie_fields)
  have cnt2: "filter (\<lambda>r. entity.x r = 135 \<and> entity.y r = 145
          \<and> active r \<and> (\<exists>e\<in>set (explosionsRef tieState). inRange (pulse 16 e) r)) (rocketsRef tieState)
       = [rocketsRef tieState ! 1]"
    unfolding e using h0 h1 act pos by (subst rs) simp
  from t have "\<forall>a b. length (filter (\<lambda>c. entity.x c = a \<and> entity.y c = b)
          (drop (length (explosionsRef tieState)) (explosionsRef (updateExplosions 16 tieState)))) =
        length (filter (\<lambda>r. entity.x r = a \<and> entity.y r = b
          \<and> active r \<and> (\<exists>e\<in>set (explosionsRef tieState). inRange (pulse 16 e) r)) (rocketsRef tieState))"
    by blast
  from this [rule_format, of 135 145]
  have ch: "length (filter (\<lambda>c. entity.x c = 135 \<and> entity.y c = 145)
        (drop (length (explosionsRef tieState)) (explosionsRef (updateExplosions 16 tieState)))) = 1"
    by (simp add: cnt2)
  show ?thesis
    using a act h1 r1 r0 sc ch by simp
qed

end
